theory Spec2Isabelle
  imports Complex_Main "HOL-Library.Log_Nat"
begin

section \<open>Costcodle: game state, statistics and guess evaluation\<close>

text \<open>
  A shallow embedding of the deterministic core of the Costcodle price-guessing game:
  the state manager (\<^verbatim>\<open>src/modules/state.ts\<close>), the utilities
  (\<^verbatim>\<open>validation\<close>, \<^verbatim>\<open>dateUtils\<close>, \<^verbatim>\<open>mathUtils\<close>) and the game
  mechanics (\<^verbatim>\<open>gameMechanics.processGuess\<close>, \<^verbatim>\<open>createGuessObject\<close>).

  Conventions of the embedding.
  \<^item> A JavaScript \<^verbatim>\<open>number\<close> that holds a count, a game number or a timestamp is an
    \<open>int\<close>. A price or a percentage is an IEEE double: a finite double is the rational
    number it denotes (zero carries no sign), \<^verbatim>\<open>Infinity\<close>, \<^verbatim>\<open>-Infinity\<close> and \<^verbatim>\<open>NaN\<close> are
    values of their own, and every multiplication, division and subtraction of prices
    rounds its exact result to the nearest double, as the hardware does.
  \<^item> The state manager's mutable \<^verbatim>\<open>this.state\<close> is a record that every method takes and
    returns. \<^verbatim>\<open>persist\<close> writes a copy of the record to local storage and
    \<^verbatim>\<open>notify\<close> calls subscribers that only log and repaint; neither changes the record, and
    the DOM calls of the game mechanics (toasts, animations, the share button) do not
    either, so they do not appear.
  \<^item> Strings are lists of ASCII characters.
\<close>

subsection \<open>Configuration (\<^verbatim>\<open>constants.ts\<close>)\<close>

definition MAX_GUESSES :: nat where
  "MAX_GUESSES = 6"

definition WIN_THRESHOLD_PERCENT :: rat where
  "WIN_THRESHOLD_PERCENT = 5"

definition NEAR_THRESHOLD_PERCENT :: rat where
  "NEAR_THRESHOLD_PERCENT = 25"

text \<open>\<^verbatim>\<open>MIN_PRICE: 0.01\<close> is the double nearest to 0.01.\<close>

definition MIN_PRICE :: rat where
  "MIN_PRICE = 5764607523034235 / 576460752303423488"

definition MAX_PRICE :: rat where
  "MAX_PRICE = 10000"

definition MAX_DECIMAL_PLACES :: nat where
  "MAX_DECIMAL_PLACES = 2"

subsection \<open>Data model (\<^verbatim>\<open>types/game.ts\<close>)\<close>

text \<open>\<^verbatim>\<open>GuessCloseness\<close> is \<^verbatim>\<open>'guess-win' | 'guess-near' | 'guess-far'\<close> and
  \<^verbatim>\<open>GuessDirection\<close> is \<^verbatim>\<open>'&uarr;' | '&darr;' | '&check;'\<close>; the constructors carry
  the names the constants module gives them.\<close>

datatype GuessCloseness = WIN | NEAR | FAR

datatype GuessDirection = UP | DOWN | CHECK

record Guess =
  guess :: rat
  closeness :: GuessCloseness
  direction :: GuessDirection

record GameState =
  gameNumber :: int
  guesses :: "Guess list"
  hasWon :: bool

record UserStats =
  numGames :: int
  numWins :: int
  winsInNum :: "int list"
  currentStreak :: int
  maxStreak :: int

text \<open>\<^verbatim>\<open>AppState\<close> without its three UI fields (\<^verbatim>\<open>isLoading\<close>, \<^verbatim>\<open>currentModal\<close>,
  \<^verbatim>\<open>previousFocus\<close>). Its field \<^verbatim>\<open>gameNumber\<close> is \<open>state_gameNumber\<close> here, since
  \<open>gameNumber\<close> already names the field of \<open>GameState\<close>.\<close>

record AppState =
  isArchiveMode :: bool
  selectedGameNumber :: int
  state_gameNumber :: int
  productName :: string
  productPrice :: rat
  productImage :: string
  gameState :: GameState
  userStats :: UserStats

definition DEFAULT_USER_STATS :: UserStats where
  "DEFAULT_USER_STATS =
     \<lparr>numGames = 0, numWins = 0, winsInNum = [0, 0, 0, 0, 0, 0],
      currentStreak = 0, maxStreak = 0\<rparr>"

definition DEFAULT_GAME_STATE :: GameState where
  "DEFAULT_GAME_STATE = \<lparr>gameNumber = - 1, guesses = [], hasWon = False\<rparr>"

text \<open>The state the constructor builds before it reads the storage; with an empty
  storage \<^verbatim>\<open>loadFromStorage\<close> leaves these defaults in place.\<close>

definition initial_state :: AppState where
  "initial_state =
     \<lparr>isArchiveMode = False, selectedGameNumber = 1, state_gameNumber = 1,
      productName = [], productPrice = 0, productImage = [],
      gameState = DEFAULT_GAME_STATE, userStats = DEFAULT_USER_STATS\<rparr>"

subsection \<open>The state manager (\<^verbatim>\<open>StateManager\<close>)\<close>

definition setSelectedGameNumber :: "int \<Rightarrow> AppState \<Rightarrow> AppState" where
  "setSelectedGameNumber n s =
     (let s1 = s\<lparr>selectedGameNumber := n\<rparr>
      in if isArchiveMode s1 then s1\<lparr>state_gameNumber := n\<rparr> else s1)"

text \<open>\<^verbatim>\<open>toggleArchiveMode\<close> reads the clock through \<^verbatim>\<open>dateUtils.getGameNumber()\<close>; the
  value it would return is the argument \<open>today\<close>.\<close>

definition toggleArchiveMode :: "int \<Rightarrow> AppState \<Rightarrow> AppState" where
  "toggleArchiveMode today s =
     (let s1 = s\<lparr>isArchiveMode := \<not> isArchiveMode s\<rparr>
      in if isArchiveMode s1 then s1\<lparr>state_gameNumber := selectedGameNumber s1\<rparr>
         else s1\<lparr>state_gameNumber := today\<rparr>)"

definition setProductData :: "string \<Rightarrow> rat \<Rightarrow> string \<Rightarrow> AppState \<Rightarrow> AppState" where
  "setProductData name price img s =
     s\<lparr>productName := name, productPrice := price, productImage := img\<rparr>"

definition initializeGame :: "AppState \<Rightarrow> AppState" where
  "initializeGame s =
     (if isArchiveMode s then
        s\<lparr>gameState := (gameState s)
             \<lparr>gameNumber := state_gameNumber s, guesses := [], hasWon := False\<rparr>\<rparr>
      else if gameNumber (gameState s) \<noteq> state_gameNumber s then
        (let s1 = (if hasWon (gameState s) = False
                   then s\<lparr>userStats := (userStats s)\<lparr>currentStreak := 0\<rparr>\<rparr>
                   else s);
             s2 = s1\<lparr>gameState := (gameState s1)
                     \<lparr>gameNumber := state_gameNumber s1, guesses := [], hasWon := False\<rparr>\<rparr>
         in s2\<lparr>userStats := (userStats s2)\<lparr>numGames := numGames (userStats s2) + 1\<rparr>\<rparr>)
      else s)"

definition addGuess :: "Guess \<Rightarrow> AppState \<Rightarrow> AppState" where
  "addGuess g s = s\<lparr>gameState := (gameState s)\<lparr>guesses := guesses (gameState s) @ [g]\<rparr>\<rparr>"

text \<open>In \<^verbatim>\<open>setGameWon\<close> the index \<^verbatim>\<open>guesses.length - 1\<close> is \<open>- 1\<close> on an empty list, and
  the counter is bumped only when the index is inside the array; \<^verbatim>\<open>(x || 0) + 1\<close> is
  \<open>x + 1\<close> on a number.\<close>

definition setGameWon :: "AppState \<Rightarrow> AppState" where
  "setGameWon s =
     (let s1 = s\<lparr>gameState := (gameState s)\<lparr>hasWon := True\<rparr>\<rparr>
      in if \<not> isArchiveMode s1 then
           (let newWinsInNum0 = winsInNum (userStats s1);
                guessIndex = int (length (guesses (gameState s1))) - 1;
                newWinsInNum =
                  (if guessIndex \<ge> 0 \<and> guessIndex < int (length newWinsInNum0)
                   then newWinsInNum0[nat guessIndex := newWinsInNum0 ! nat guessIndex + 1]
                   else newWinsInNum0);
                newCurrentStreak = currentStreak (userStats s1) + 1;
                newMaxStreak = max newCurrentStreak (maxStreak (userStats s1))
            in s1\<lparr>userStats := (userStats s1)
                    \<lparr>numWins := numWins (userStats s1) + 1,
                     currentStreak := newCurrentStreak,
                     maxStreak := newMaxStreak,
                     winsInNum := newWinsInNum\<rparr>\<rparr>)
         else s1)"

definition setGameLost :: "AppState \<Rightarrow> AppState" where
  "setGameLost s =
     (if \<not> isArchiveMode s then s\<lparr>userStats := (userStats s)\<lparr>currentStreak := 0\<rparr>\<rparr>
      else s)"

definition canGuess :: "AppState \<Rightarrow> bool" where
  "canGuess s \<longleftrightarrow>
     length (guesses (gameState s)) < MAX_GUESSES \<and> \<not> hasWon (gameState s)"

definition gameComplete :: "AppState \<Rightarrow> bool" where
  "gameComplete s \<longleftrightarrow>
     hasWon (gameState s) \<or> length (guesses (gameState s)) \<ge> MAX_GUESSES"

subsection \<open>Numbers that need not be finite\<close>

text \<open>The result of \<^verbatim>\<open>calculatePercentDifference\<close> and of \<^verbatim>\<open>parseInt\<close> is a number that
  can be infinite or \<^verbatim>\<open>NaN\<close>. Comparisons follow JavaScript: every comparison with
  \<^verbatim>\<open>NaN\<close> is false, \<^verbatim>\<open>Infinity\<close> is above and \<^verbatim>\<open>-Infinity\<close> below every finite
  number.\<close>

datatype js_number = Num rat | Infinity | NegInfinity | NaN

fun js_abs :: "js_number \<Rightarrow> js_number" where
  "js_abs (Num x) = Num \<bar>x\<bar>"
| "js_abs Infinity = Infinity"
| "js_abs NegInfinity = Infinity"
| "js_abs NaN = NaN"

fun js_le :: "js_number \<Rightarrow> rat \<Rightarrow> bool" where
  "js_le (Num x) y = (x \<le> y)"
| "js_le Infinity y = False"
| "js_le NegInfinity y = True"
| "js_le NaN y = False"

fun js_lt :: "js_number \<Rightarrow> rat \<Rightarrow> bool" where
  "js_lt (Num x) y = (x < y)"
| "js_lt Infinity y = False"
| "js_lt NegInfinity y = True"
| "js_lt NaN y = False"

fun js_gt :: "js_number \<Rightarrow> rat \<Rightarrow> bool" where
  "js_gt (Num x) y = (x > y)"
| "js_gt Infinity y = True"
| "js_gt NegInfinity y = False"
| "js_gt NaN y = False"

fun isNaN :: "js_number \<Rightarrow> bool" where
  "isNaN NaN = True"
| "isNaN (Num x) = False"
| "isNaN Infinity = False"
| "isNaN NegInfinity = False"

subsection \<open>Double-precision arithmetic\<close>

text \<open>\<open>ilog2 x\<close> is the exponent \<open>e\<close> with \<open>2 ^ e \<le> x < 2 ^ (e + 1)\<close> of a positive
  rational, read off the bit length of \<open>\<lfloor>x\<rfloor>\<close> when \<open>x \<ge> 1\<close> and of \<open>\<lceil>1 / x\<rceil> - 1\<close>
  otherwise.\<close>

definition ilog2 :: "rat \<Rightarrow> int" where
  "ilog2 x = (if x \<ge> 1 then bitlen \<lfloor>x\<rfloor> - 1 else - bitlen (\<lceil>1 / x\<rceil> - 1))"

definition roundTiesToEven :: "rat \<Rightarrow> int" where
  "roundTiesToEven m =
     (let f = \<lfloor>m\<rfloor>; d = m - of_int f
      in if d < 1 / 2 then f
         else if d > 1 / 2 then f + 1
         else if even f then f
         else f + 1)"

text \<open>Rounding an exact result to a double (IEEE 754 binary64, round to nearest, ties to
  even). The significand has 53 bits, so between \<open>2 ^ e\<close> and \<open>2 ^ (e + 1)\<close> the doubles
  are the multiples of \<open>2 ^ (e - 52)\<close>; below \<open>2 ^ (- 1022)\<close> they are the multiples of
  \<open>2 ^ (- 1074)\<close> (the subnormal numbers); and a result that rounds to \<open>2 ^ 1024\<close> or
  beyond is infinite. \<open>DOUBLE_OVERFLOW\<close> is the number \<open>2 ^ 1024\<close>, written out.\<close>

definition DOUBLE_OVERFLOW :: rat where
  "DOUBLE_OVERFLOW = 179769313486231590772930519078902473361797697894230657273430081157732675805500963132708477322407536021120113879871393357658789768814416622492847430639474124377767893424865485276302219601246094119453082952085005768838150682342462881473913110540827237163350510684586298239947245938479716304835356329624224137216"

definition round_double :: "rat \<Rightarrow> js_number" where
  "round_double x =
     (if x = 0 then Num 0
      else
        (let e = max (ilog2 \<bar>x\<bar>) (- 1022);
             ulp = 2 powi (e - 52);
             y = of_int (roundTiesToEven (\<bar>x\<bar> / ulp)) * ulp
         in if y \<ge> DOUBLE_OVERFLOW then (if x > 0 then Infinity else NegInfinity)
            else Num (sgn x * y)))"

fun js_positive :: "js_number \<Rightarrow> bool" where
  "js_positive (Num x) = (x \<ge> 0)"
| "js_positive Infinity = True"
| "js_positive NegInfinity = False"
| "js_positive NaN = False"

fun js_mul :: "js_number \<Rightarrow> js_number \<Rightarrow> js_number" where
  "js_mul (Num x) (Num y) = round_double (x * y)"
| "js_mul NaN b = NaN"
| "js_mul a NaN = NaN"
| "js_mul (Num x) b =
     (if x = 0 then NaN else if (x > 0) = js_positive b then Infinity else NegInfinity)"
| "js_mul a (Num y) =
     (if y = 0 then NaN else if (y > 0) = js_positive a then Infinity else NegInfinity)"
| "js_mul a b = (if js_positive a = js_positive b then Infinity else NegInfinity)"

text \<open>A zero divisor counts as \<open>+0\<close>. (The only division of the program divides by
  \<^verbatim>\<open>target * 100\<close> for a target other than zero.)\<close>

fun js_div :: "js_number \<Rightarrow> js_number \<Rightarrow> js_number" where
  "js_div (Num x) (Num y) =
     (if y = 0 then (if x = 0 then NaN else if x > 0 then Infinity else NegInfinity)
      else round_double (x / y))"
| "js_div NaN b = NaN"
| "js_div a NaN = NaN"
| "js_div (Num x) b = Num 0"
| "js_div a (Num y) = (if (y \<ge> 0) = js_positive a then Infinity else NegInfinity)"
| "js_div a b = NaN"

fun js_sub :: "js_number \<Rightarrow> js_number \<Rightarrow> js_number" where
  "js_sub (Num x) (Num y) = round_double (x - y)"
| "js_sub NaN b = NaN"
| "js_sub a NaN = NaN"
| "js_sub (Num x) b = (if js_positive b then NegInfinity else Infinity)"
| "js_sub a (Num y) = a"
| "js_sub a b = (if a = b then NaN else a)"

subsection \<open>Characters and decimal digits\<close>

definition isDigit :: "char \<Rightarrow> bool" where
  "isDigit c \<longleftrightarrow> c \<in> set ''0123456789''"

definition isWhiteSpace :: "char \<Rightarrow> bool" where
  "isWhiteSpace c \<longleftrightarrow> c \<in> {CHR 0x20, CHR 0x09, CHR 0x0A, CHR 0x0B, CHR 0x0C, CHR 0x0D}"

definition digitValue :: "char \<Rightarrow> int" where
  "digitValue c = int (of_char c) - 48"

definition digitsValue :: "string \<Rightarrow> int" where
  "digitsValue ds = foldl (\<lambda>acc c. 10 * acc + digitValue c) 0 ds"

definition trim :: "string \<Rightarrow> string" where
  "trim str = rev (dropWhile isWhiteSpace (rev (dropWhile isWhiteSpace str)))"

subsection \<open>Input validation (\<^verbatim>\<open>validation\<close>)\<close>

text \<open>A \<^verbatim>\<open>ValidationResult\<close> is either \<^verbatim>\<open>{valid: false, error}\<close> or
  \<^verbatim>\<open>{valid: true, value}\<close>; the display string \<^verbatim>\<open>formatted\<close> that
  \<^verbatim>\<open>validatePriceInput\<close> adds is read by no caller and is left out. The error of
  \<^verbatim>\<open>validateGameNumber\<close> carries the bound that the message shows.\<close>

datatype ValidationError =
  INVALID_INPUT | INVALID_NUMBER | PRICE_RANGE | DECIMAL_PLACES | GAME_NUMBER_RANGE int

datatype ValidationResult = Invalid ValidationError | Valid rat

text \<open>The test \<^verbatim>\<open>/^\d*\.?\d*$/\<close>: digits, at most one dot, digits.\<close>

definition matchesPricePattern :: "string \<Rightarrow> bool" where
  "matchesPricePattern str =
     (case dropWhile isDigit str of
        [] \<Rightarrow> True
      | c # rest \<Rightarrow> c = CHR ''.'' \<and> list_all isDigit rest)"

text \<open>The digits after the dot, for a string that passed the test above.\<close>

definition fractionDigits :: "string \<Rightarrow> string" where
  "fractionDigits str =
     (case dropWhile isDigit str of
        [] \<Rightarrow> []
      | c # rest \<Rightarrow> if c = CHR ''.'' then takeWhile isDigit rest else [])"

text \<open>\<^verbatim>\<open>parseFloat\<close> on a string that passed the test: the double nearest to the decimal
  value, or \<^verbatim>\<open>NaN\<close> when there is no digit at all (the strings \<^verbatim>\<open>""\<close> and \<^verbatim>\<open>"."\<close>).\<close>

definition parseFloat :: "string \<Rightarrow> js_number" where
  "parseFloat str =
     (let intDigits = takeWhile isDigit str; fracDigits = fractionDigits str
      in if intDigits = [] \<and> fracDigits = [] then NaN
         else round_double (of_int (digitsValue intDigits) +
                            of_int (digitsValue fracDigits) / 10 ^ length fracDigits))"

definition validatePriceInput :: "string \<Rightarrow> ValidationResult" where
  "validatePriceInput input =
     (if input = [] then Invalid INVALID_INPUT
      else
        (let cleanInput =
               filter (\<lambda>c. \<not> (c = CHR ''$'' \<or> c = CHR '','' \<or> isWhiteSpace c)) (trim input)
         in if \<not> matchesPricePattern cleanInput then Invalid INVALID_NUMBER
            else
              (let numValue = parseFloat cleanInput
               in if isNaN numValue \<or> js_lt numValue MIN_PRICE \<or> js_gt numValue MAX_PRICE
                  then Invalid PRICE_RANGE
                  else if fractionDigits cleanInput \<noteq> [] \<and>
                          length (fractionDigits cleanInput) > MAX_DECIMAL_PLACES
                  then Invalid DECIMAL_PLACES
                  else (case numValue of Num v \<Rightarrow> Valid v | _ \<Rightarrow> Invalid PRICE_RANGE))))"

text \<open>\<^verbatim>\<open>parseInt(str, 10)\<close>: skip leading white space, read an optional sign, then the
  longest run of decimal digits; \<^verbatim>\<open>NaN\<close> when that run is empty. Whatever follows the
  digits is ignored.\<close>

definition parseInt :: "string \<Rightarrow> js_number" where
  "parseInt str =
     (let s0 = dropWhile isWhiteSpace str;
          negative = (s0 \<noteq> [] \<and> hd s0 = CHR ''-'');
          s1 = (if s0 \<noteq> [] \<and> (hd s0 = CHR ''+'' \<or> hd s0 = CHR ''-'') then tl s0 else s0);
          ds = takeWhile isDigit s1
      in if ds = [] then NaN
         else Num (of_int (if negative then - digitsValue ds else digitsValue ds)))"

text \<open>The argument \<^verbatim>\<open>gameNumber: number | string\<close>.\<close>

datatype NumberOrString = OfNumber js_number | OfString string

definition validateGameNumber :: "NumberOrString \<Rightarrow> int \<Rightarrow> ValidationResult" where
  "validateGameNumber gameNumberArg maxGameNumber =
     (let num = (case gameNumberArg of OfString str \<Rightarrow> parseInt str | OfNumber n \<Rightarrow> n)
      in if isNaN num \<or> js_lt num 1 \<or> js_gt num (of_int maxGameNumber)
         then Invalid (GAME_NUMBER_RANGE maxGameNumber)
         else (case num of Num v \<Rightarrow> Valid v
               | _ \<Rightarrow> Invalid (GAME_NUMBER_RANGE maxGameNumber)))"

subsection \<open>Dates (\<^verbatim>\<open>dateUtils\<close>)\<close>

text \<open>\<^verbatim>\<open>getGameNumber\<close> reads the clock and the start date; both are arguments here,
  in milliseconds since the Unix epoch as \<^verbatim>\<open>Date.getTime()\<close> returns them. The start date
  \<^verbatim>\<open>new Date('09/21/2023')\<close> is midnight of 21 September 2023 in the host's time zone;
  \<open>COSTCODLE_START_DATE_UTC\<close> is its value when that zone is UTC. The quotient is written
  exactly; the double quotient of the program has the same ceiling (lemma
  \<open>getGameNumber_double_division\<close> below).\<close>

definition COSTCODLE_START_DATE_UTC :: int where
  "COSTCODLE_START_DATE_UTC = 1695254400000"

definition getGameNumber :: "int \<Rightarrow> int \<Rightarrow> int" where
  "getGameNumber startDate currDate =
     (let timeDifference = currDate - startDate;
          dayDifference = (of_int timeDifference :: rat) / (1000 * 3600 * 24)
      in \<lceil>dayDifference\<rceil>)"

subsection \<open>Percentages (\<^verbatim>\<open>mathUtils\<close>)\<close>

text \<open>The arguments are finite doubles; each of the four operations of
  \<^verbatim>\<open>((guess * 100) / (target * 100)) * 100 - 100\<close> rounds.\<close>

definition calculatePercentDifference :: "rat \<Rightarrow> rat \<Rightarrow> js_number" where
  "calculatePercentDifference g target =
     (if target = 0 then (if g = 0 then Num 0 else Infinity)
      else js_sub
             (js_mul (js_div (js_mul (Num g) (Num 100)) (js_mul (Num target) (Num 100)))
                (Num 100))
             (Num 100))"

subsection \<open>Game mechanics (\<^verbatim>\<open>gameMechanics\<close>)\<close>

definition createGuessObject :: "rat \<Rightarrow> AppState \<Rightarrow> Guess" where
  "createGuessObject guessValue s =
     (let percentAway = calculatePercentDifference guessValue (productPrice s);
          cl = (if js_le (js_abs percentAway) WIN_THRESHOLD_PERCENT then WIN
                else if js_le (js_abs percentAway) NEAR_THRESHOLD_PERCENT then NEAR
                else FAR);
          dir = (if cl = WIN then CHECK
                 else if js_lt percentAway 0 then UP
                 else DOWN)
      in \<lparr>guess = guessValue, closeness = cl, direction = dir\<rparr>)"

text \<open>\<^verbatim>\<open>processGuess\<close> returns its boolean together with the new state.\<close>

definition processGuess :: "string \<Rightarrow> AppState \<Rightarrow> bool \<times> AppState" where
  "processGuess userInput s =
     (if userInput = [] then (False, s)
      else
        (case validatePriceInput userInput of
           Invalid e \<Rightarrow> (False, s)
         | Valid v \<Rightarrow>
             if \<not> canGuess s then (False, s)
             else
               (let g = createGuessObject v s;
                    s1 = addGuess g s
                in if closeness g = WIN then (True, setGameWon s1)
                   else if length (guesses (gameState s1)) \<ge> MAX_GUESSES
                   then (True, setGameLost s1)
                   else (True, s1))))"

subsection \<open>Sequences of operations\<close>

text \<open>The specification's \<open>reconcile(persisted, requestedIndex, mode, stats)\<close> is
  \<^verbatim>\<open>initializeGame\<close> run on a state whose mode flag and current game number are the two
  arguments (in the program the constructor, \<^verbatim>\<open>toggleArchiveMode\<close> and
  \<^verbatim>\<open>setSelectedGameNumber\<close> set them before \<^verbatim>\<open>startGame\<close> calls
  \<^verbatim>\<open>initializeGame\<close>); its \<open>recordGuess\<close> is \<^verbatim>\<open>processGuess\<close>. An action is one
  of these calls, the loading of the product, or a direct call of \<^verbatim>\<open>setGameWon\<close> or
  \<^verbatim>\<open>setGameLost\<close>.\<close>

definition reconcile :: "int \<Rightarrow> bool \<Rightarrow> AppState \<Rightarrow> AppState" where
  "reconcile requestedIndex archiveMode s =
     initializeGame (s\<lparr>isArchiveMode := archiveMode, state_gameNumber := requestedIndex\<rparr>)"

datatype action =
  Reconcile int bool
| RecordGuess string
| LoadProduct string rat string
| GameWon
| GameLost

fun step :: "action \<Rightarrow> AppState \<Rightarrow> AppState" where
  "step (Reconcile requestedIndex archiveMode) s = reconcile requestedIndex archiveMode s"
| "step (RecordGuess userInput) s = snd (processGuess userInput s)"
| "step (LoadProduct name price img) s = setProductData name price img s"
| "step GameWon s = setGameWon s"
| "step GameLost s = setGameLost s"

fun run :: "action list \<Rightarrow> AppState \<Rightarrow> AppState" where
  "run [] s = s"
| "run (a # as) s = run as (step a s)"

subsection \<open>Notions of the specification\<close>

text \<open>The specification speaks of calendar days, which depend on the time zone of the
  host. A zone is given by its offset from UTC in milliseconds at every instant
  (\<^verbatim>\<open>-60000 * getTimezoneOffset()\<close>). \<open>localDay\<close> is the number of the local calendar day
  of an instant, counted from 1 January 1970, and \<open>localMidnight\<close> holds at the first
  instant of a local day. The start date \<^verbatim>\<open>new Date('09/21/2023')\<close> is a local midnight.\<close>

definition localDay :: "(int \<Rightarrow> int) \<Rightarrow> int \<Rightarrow> int" where
  "localDay utcOffset t = (t + utcOffset t) div 86400000"

definition localMidnight :: "(int \<Rightarrow> int) \<Rightarrow> int \<Rightarrow> bool" where
  "localMidnight utcOffset t \<longleftrightarrow> (t + utcOffset t) mod 86400000 = 0"

text \<open>Two zones: UTC, and New York between March 2023 and March 2024, where the clocks
  went back from UTC-4 to UTC-5 on 5 November 2023 at 06:00 UTC. In New York the start
  date is 21 September 2023, 04:00 UTC.\<close>

definition utcOffset_UTC :: "int \<Rightarrow> int" where
  "utcOffset_UTC t = 0"

definition utcOffset_New_York :: "int \<Rightarrow> int" where
  "utcOffset_New_York t = (if t < 1699164000000 then - 14400000 else - 18000000)"

definition COSTCODLE_START_DATE_New_York :: int where
  "COSTCODLE_START_DATE_New_York = 1695268800000"

text \<open>The specification's formula for the percentage, in exact arithmetic, with its two
  conventions for a target of zero.\<close>

definition percentAway :: "rat \<Rightarrow> rat \<Rightarrow> js_number" where
  "percentAway g target =
     (if target = 0 then (if g = 0 then Num 0 else Infinity)
      else Num ((g - target) / target * 100))"

text \<open>Archive play: every reconciliation is in archive mode. Daily play: every
  reconciliation is in daily mode and the session ends only through a guess.\<close>

fun archive_action :: "action \<Rightarrow> bool" where
  "archive_action (Reconcile requestedIndex archiveMode) = archiveMode"
| "archive_action a = True"

fun daily_play :: "action \<Rightarrow> bool" where
  "daily_play (Reconcile requestedIndex archiveMode) = (\<not> archiveMode)"
| "daily_play (RecordGuess userInput) = True"
| "daily_play (LoadProduct name price img) = True"
| "daily_play GameWon = False"
| "daily_play GameLost = False"

text \<open>Two invariants used below: the streak counters are ordered, and in daily mode an
  open session has already been counted in \<open>numGames\<close>.\<close>

definition streak_ok :: "UserStats \<Rightarrow> bool" where
  "streak_ok st \<longleftrightarrow> currentStreak st \<le> maxStreak st \<and> 0 \<le> maxStreak st"

definition counted :: "AppState \<Rightarrow> bool" where
  "counted s \<longleftrightarrow> \<not> isArchiveMode s \<and>
     (if hasWon (gameState s) then numWins (userStats s) \<le> numGames (userStats s)
      else numWins (userStats s) < numGames (userStats s))"

subsection \<open>Example states\<close>

text \<open>A player with a streak of two: yesterday's game (number 5) was left unsolved after
  one guess, and today is game 6.\<close>

definition abandoned_yesterday :: AppState where
  "abandoned_yesterday =
     \<lparr>isArchiveMode = False, selectedGameNumber = 1, state_gameNumber = 6,
      productName = ''Widget'', productPrice = 100, productImage = ''widget.png'',
      gameState = \<lparr>gameNumber = 5,
                   guesses = [\<lparr>guess = 1, closeness = FAR, direction = UP\<rparr>],
                   hasWon = False\<rparr>,
      userStats = \<lparr>numGames = 3, numWins = 2, winsInNum = [2, 0, 0, 0, 0, 0],
                   currentStreak = 2, maxStreak = 2\<rparr>\<rparr>"

text \<open>The same statistics, but the stored session is missing, so the session is the
  default one with the sentinel game number \<open>- 1\<close>.\<close>

definition session_unset :: AppState where
  "session_unset = abandoned_yesterday\<lparr>gameState := DEFAULT_GAME_STATE\<rparr>"

text \<open>Today's game (number 6) in daily mode, with one, respectively five, wrong guesses
  so far; \<open>won_today\<close> is the first of them once it has been won.\<close>

definition one_miss :: AppState where
  "one_miss = abandoned_yesterday\<lparr>gameState := (gameState abandoned_yesterday)\<lparr>gameNumber := 6\<rparr>\<rparr>"

definition five_misses :: AppState where
  "five_misses =
     abandoned_yesterday
       \<lparr>gameState := \<lparr>gameNumber = 6,
                       guesses = replicate 5 \<lparr>guess = 1, closeness = FAR, direction = UP\<rparr>,
                       hasWon = False\<rparr>\<rparr>"

definition won_today :: AppState where
  "won_today = one_miss\<lparr>gameState := (gameState one_miss)\<lparr>hasWon := True\<rparr>\<rparr>"

definition archive_start :: AppState where
  "archive_start = initial_state\<lparr>isArchiveMode := True\<rparr>"

definition archive_session :: "action list" where
  "archive_session =
     [Reconcile 3 True, LoadProduct ''Widget'' 100 ''widget.png'', RecordGuess ''100'',
      GameLost, Reconcile 4 True, RecordGuess ''1'', GameWon]"

text \<open>Game 5 is won in daily mode, opened once in archive mode, and opened again in
  daily mode on the same day.\<close>

definition replayed_daily_game :: "action list" where
  "replayed_daily_game =
     [Reconcile 5 False, LoadProduct ''Widget'' 100 ''widget.png'', RecordGuess ''100'',
      Reconcile 5 True, Reconcile 5 False, RecordGuess ''100'']"

text \<open>The doubles nearest to 0.57, 0.60 and 0.63, and states in which the product costs
  100, respectively the double nearest to 0.60.\<close>

definition double_0_57 :: rat where
  "double_0_57 = 5134103575202365 / 9007199254740992"

definition double_0_60 :: rat where
  "double_0_60 = 5404319552844595 / 9007199254740992"

definition double_0_63 :: rat where
  "double_0_63 = 5674535530486825 / 9007199254740992"

definition priced_100 :: AppState where
  "priced_100 = initial_state\<lparr>productPrice := 100\<rparr>"

definition priced_0_60 :: AppState where
  "priced_0_60 = initial_state\<lparr>productPrice := double_0_60\<rparr>"

section \<open>Properties\<close>

subsection \<open>Rounding to a double\<close>

text \<open>A finite result is within half a unit in the last place of the exact value; for
  a result in the normal range that is a relative error of at most \<open>2 ^ (- 53)\<close>.\<close>

lemma ilog2_lower:
  assumes "0 < x"
  shows "2 powi (ilog2 x) \<le> x"
proof (cases "x \<ge> 1")
  case True
  define n where "n = \<lfloor>x\<rfloor>"
  have n1: "1 \<le> n" using True by (simp add: n_def le_floor_iff)
  then have b: "2 ^ nat (bitlen n - 1) \<le> n" using bitlen_bounds [of n] by simp
  have bl: "1 \<le> bitlen n" using n1 by (simp add: bitlen_alt_def)
  have "(2::rat) ^ nat (bitlen n - 1) = of_int (2 ^ nat (bitlen n - 1))" by simp
  also have "\<dots> \<le> of_int n" using b by (simp only: of_int_le_iff)
  also have "\<dots> \<le> x" by (simp add: n_def)
  finally have "(2::rat) ^ nat (bitlen n - 1) \<le> x" .
  moreover have "ilog2 x = bitlen n - 1" using True by (simp add: ilog2_def n_def)
  ultimately show ?thesis using bl by (simp add: power_int_def)
next
  case False
  then have x1: "x < 1" by simp
  define n where "n = \<lceil>1 / x\<rceil> - 1"
  have "1 < 1 / x" using assms x1 by (simp add: field_simps)
  then have "1 < \<lceil>1 / x\<rceil>" by (simp add: less_ceiling_iff)
  then have n1: "1 \<le> n" by (simp add: n_def)
  then have b: "n < 2 ^ nat (bitlen n)" using bitlen_bounds [of n] by simp
  have bl: "1 \<le> bitlen n" using n1 by (simp add: bitlen_alt_def)
  from b have "\<lceil>1 / x\<rceil> \<le> 2 ^ nat (bitlen n)" by (simp add: n_def)
  then have "1 / x \<le> of_int (2 ^ nat (bitlen n))" by (simp only: ceiling_le_iff)
  then have "1 / x \<le> 2 ^ nat (bitlen n)" by simp
  then have "1 / 2 ^ nat (bitlen n) \<le> x" using assms by (simp add: field_simps)
  moreover have "ilog2 x = - bitlen n" using False by (simp add: ilog2_def n_def)
  ultimately show ?thesis using bl by (simp add: power_int_def field_simps)
qed

lemma roundTiesToEven_error: "\<bar>of_int (roundTiesToEven m) - m\<bar> \<le> 1 / 2"
proof -
  define d where "d = m - of_int \<lfloor>m\<rfloor>"
  have d: "0 \<le> d" "d < 1" unfolding d_def by linarith+
  have m: "m = of_int \<lfloor>m\<rfloor> + d" by (simp add: d_def)
  have "roundTiesToEven m = \<lfloor>m\<rfloor> \<and> d \<le> 1 / 2 \<or>
        roundTiesToEven m = \<lfloor>m\<rfloor> + 1 \<and> 1 / 2 \<le> d"
    unfolding roundTiesToEven_def Let_def d_def [symmetric] by auto
  then show ?thesis
  proof
    assume "roundTiesToEven m = \<lfloor>m\<rfloor> \<and> d \<le> 1 / 2"
    then show ?thesis using d by (subst (2) m) simp
  next
    assume "roundTiesToEven m = \<lfloor>m\<rfloor> + 1 \<and> 1 / 2 \<le> d"
    then show ?thesis using d by (subst (2) m) simp
  qed
qed


lemma DOUBLE_OVERFLOW_eq: "DOUBLE_OVERFLOW = 2 ^ 1024"
  by (simp add: DOUBLE_OVERFLOW_def)

text \<open>Half a unit in the last place, as a function of the exact result.\<close>

lemma half_ulp_bound:
  assumes "x \<noteq> 0"
  shows "0 < (2::rat) powi (max (ilog2 \<bar>x\<bar>) (- 1022) - 52)"
    and "2 powi (max (ilog2 \<bar>x\<bar>) (- 1022) - 52) / 2 \<le> \<bar>x\<bar> / 2 ^ 53 + 1 / 2 ^ 1075"
    and "1 / 2 ^ 1022 \<le> \<bar>x\<bar> \<Longrightarrow>
         2 powi (max (ilog2 \<bar>x\<bar>) (- 1022) - 52) / 2 \<le> \<bar>x\<bar> / 2 ^ 53"
proof -
  let ?e = "ilog2 \<bar>x\<bar>"
  have low: "2 powi ?e \<le> \<bar>x\<bar>" using assms by (intro ilog2_lower) simp
  show "0 < (2::rat) powi (max ?e (- 1022) - 52)" by simp
  have split: "(2::rat) powi (k - 52) / 2 = 2 powi k / 2 ^ 53" for k :: int
    by (simp add: power_int_diff)
  have sub: "(2::rat) powi (- 1022) = 1 / 2 ^ 1022"
    by (simp add: power_int_def inverse_eq_divide power_one_over)
  show "2 powi (max ?e (- 1022) - 52) / 2 \<le> \<bar>x\<bar> / 2 ^ 53 + 1 / 2 ^ 1075"
  proof (cases "?e \<ge> - 1022")
    case True
    then have "max ?e (- 1022) = ?e" by simp
    then have "(2::rat) powi (max ?e (- 1022) - 52) / 2 = 2 powi ?e / 2 ^ 53" by (simp add: split)
    also have "\<dots> \<le> \<bar>x\<bar> / 2 ^ 53" using low by (simp add: divide_right_mono)
    finally show ?thesis by simp
  next
    case False
    then have "max ?e (- 1022) = - 1022" by simp
    then have "(2::rat) powi (max ?e (- 1022) - 52) / 2 = (2::rat) powi (- 1022) / 2 ^ 53"
      by (simp only: split)
    also have "\<dots> = 1 / 2 ^ 1075" by (simp add: sub)
    finally show ?thesis by simp
  qed
  show "2 powi (max ?e (- 1022) - 52) / 2 \<le> \<bar>x\<bar> / 2 ^ 53" if n: "1 / 2 ^ 1022 \<le> \<bar>x\<bar>"
  proof (cases "?e \<ge> - 1022")
    case True
    then have "max ?e (- 1022) = ?e" by simp
    then have "(2::rat) powi (max ?e (- 1022) - 52) / 2 = 2 powi ?e / 2 ^ 53" by (simp add: split)
    also have "\<dots> \<le> \<bar>x\<bar> / 2 ^ 53" using low by (simp add: divide_right_mono)
    finally show ?thesis .
  next
    case False
    then have "max ?e (- 1022) = - 1022" by simp
    then have "(2::rat) powi (max ?e (- 1022) - 52) / 2 = (2::rat) powi (- 1022) / 2 ^ 53"
      by (simp only: split)
    also have "\<dots> \<le> \<bar>x\<bar> / 2 ^ 53" using n by (simp add: sub divide_right_mono)
    finally show ?thesis .
  qed
qed

lemma round_double_finite:
  assumes "\<bar>x\<bar> < 2 ^ 1023"
  shows "\<exists>y. round_double x = Num y \<and>
             \<bar>y - x\<bar> \<le> \<bar>x\<bar> / 2 ^ 53 + 1 / 2 ^ 1075 \<and>
             (1 / 2 ^ 1022 \<le> \<bar>x\<bar> \<longrightarrow> \<bar>y - x\<bar> \<le> \<bar>x\<bar> / 2 ^ 53)"
proof (cases "x = 0")
  case True
  then show ?thesis by (simp add: round_double_def)
next
  case False
  define ulp :: rat where "ulp = 2 powi (max (ilog2 \<bar>x\<bar>) (- 1022) - 52)"
  define n where "n = roundTiesToEven (\<bar>x\<bar> / ulp)"
  define y0 where "y0 = of_int n * ulp"
  have ulp: "0 < ulp" and h1: "ulp / 2 \<le> \<bar>x\<bar> / 2 ^ 53 + 1 / 2 ^ 1075"
    and h2: "1 / 2 ^ 1022 \<le> \<bar>x\<bar> \<Longrightarrow> ulp / 2 \<le> \<bar>x\<bar> / 2 ^ 53"
    using half_ulp_bound [OF False] by (simp_all add: ulp_def)
  have "\<bar>of_int n - \<bar>x\<bar> / ulp\<bar> \<le> 1 / 2"
    unfolding n_def by (rule roundTiesToEven_error)
  then have "\<bar>of_int n - \<bar>x\<bar> / ulp\<bar> * ulp \<le> 1 / 2 * ulp"
    using ulp by (intro mult_right_mono) simp_all
  moreover have "\<bar>of_int n - \<bar>x\<bar> / ulp\<bar> * ulp = \<bar>y0 - \<bar>x\<bar>\<bar>"
  proof -
    have "\<bar>of_int n - \<bar>x\<bar> / ulp\<bar> * ulp = \<bar>(of_int n - \<bar>x\<bar> / ulp) * ulp\<bar>"
      using ulp by (simp add: abs_mult)
    also have "(of_int n - \<bar>x\<bar> / ulp) * ulp = y0 - \<bar>x\<bar>"
      using ulp by (simp add: y0_def left_diff_distrib)
    finally show ?thesis .
  qed
  ultimately have err: "\<bar>y0 - \<bar>x\<bar>\<bar> \<le> ulp / 2" by simp
  have "y0 \<le> \<bar>x\<bar> + ulp / 2" using err by linarith
  also have "\<dots> \<le> \<bar>x\<bar> + (\<bar>x\<bar> / 2 ^ 53 + 1 / 2 ^ 1075)" using h1 by simp
  also have "\<dots> < 2 ^ 1023 + (2 ^ 1023 / 2 ^ 53 + 1 / 2 ^ 1075)"
    using assms by (simp add: add_strict_mono divide_strict_right_mono)
  also have "\<dots> < DOUBLE_OVERFLOW" by (simp add: DOUBLE_OVERFLOW_def)
  finally have no: "\<not> y0 \<ge> DOUBLE_OVERFLOW" by simp
  have rd: "round_double x = Num (sgn x * y0)"
    using False no by (simp add: round_double_def Let_def y0_def n_def ulp_def)
  have "\<bar>sgn x * y0 - x\<bar> = \<bar>sgn x * (y0 - \<bar>x\<bar>)\<bar>"
    by (simp add: right_diff_distrib sgn_mult_abs)
  also have "\<dots> = \<bar>y0 - \<bar>x\<bar>\<bar>" using False by (simp add: abs_mult abs_sgn_eq)
  finally have "\<bar>sgn x * y0 - x\<bar> \<le> ulp / 2" using err by simp
  with h1 h2 rd show ?thesis by auto
qed

lemma round_double_relative:
  assumes "1 / 2 ^ 1022 \<le> x" and "x < 2 ^ 1023"
  shows "\<exists>y. round_double x = Num y \<and> x * (1 - 1 / 2 ^ 53) \<le> y \<and> y \<le> x * (1 + 1 / 2 ^ 53)"
proof -
  define u :: rat where "u = 1 / 2 ^ 53"
  have "(0::rat) < 1 / 2 ^ 1022" by simp
  then have pos: "0 < x" using assms(1) by (rule less_le_trans)
  then have ax: "\<bar>x\<bar> = x" by simp
  from round_double_finite [of x] assms ax
  obtain y where rd: "round_double x = Num y" and "\<bar>y - x\<bar> \<le> x / 2 ^ 53" by auto
  then have "\<bar>y - x\<bar> \<le> x * u" by (simp add: u_def)
  then have "y - x \<le> x * u" and "- (y - x) \<le> x * u" by (simp_all only: abs_le_iff)
  then have "x * (1 - u) \<le> y" and "y \<le> x * (1 + u)"
    by (simp_all add: algebra_simps)
  with rd show ?thesis unfolding u_def by blast
qed

text \<open>An integer below \<open>2 ^ 53\<close> in absolute value is a double: rounding leaves it as it
  is.\<close>

lemma roundTiesToEven_of_int: "roundTiesToEven (of_int n) = n"
  by (simp add: roundTiesToEven_def)

lemma round_double_of_int:
  assumes "\<bar>k\<bar> < 2 ^ 53"
  shows "round_double (of_int k) = Num (of_int k)"
proof (cases "k = 0")
  case True
  then show ?thesis by (simp add: round_double_def)
next
  case False
  define x :: rat where "x = of_int k"
  define e where "e = max (ilog2 \<bar>x\<bar>) (- 1022)"
  have xpos: "0 < \<bar>x\<bar>" using False by (simp add: x_def)
  have xlt: "\<bar>x\<bar> < 2 ^ 53"
  proof -
    have "\<bar>x\<bar> = of_int \<bar>k\<bar>" by (simp add: x_def)
    also have "\<dots> < of_int (2 ^ 53)" using assms by (simp only: of_int_less_iff)
    finally show ?thesis by simp
  qed
  have "2 powi (ilog2 \<bar>x\<bar>) \<le> \<bar>x\<bar>" using xpos by (rule ilog2_lower)
  then have "(2::rat) powi (ilog2 \<bar>x\<bar>) < 2 powi 53" using xlt by simp
  moreover have "(2::rat) powi 53 \<le> 2 powi (ilog2 \<bar>x\<bar>)" if "53 \<le> ilog2 \<bar>x\<bar>"
    using that by (intro power_int_increasing) simp_all
  ultimately have "ilog2 \<bar>x\<bar> < 53" by fastforce
  then have e52: "e \<le> 52" by (simp add: e_def)
  define j where "j = nat (52 - e)"
  have ulp: "(2::rat) powi (e - 52) = 1 / 2 ^ j"
    using e52 by (simp add: j_def power_int_def inverse_eq_divide power_one_over nat_diff_distrib)
  have "\<bar>x\<bar> / (2 powi (e - 52)) = of_int (\<bar>k\<bar> * 2 ^ j)"
    by (simp add: ulp x_def)
  then have n: "roundTiesToEven (\<bar>x\<bar> / (2 powi (e - 52))) = \<bar>k\<bar> * 2 ^ j"
    by (simp only: roundTiesToEven_of_int)
  have y: "of_int (\<bar>k\<bar> * 2 ^ j) * (2::rat) powi (e - 52) = \<bar>x\<bar>"
    by (simp add: ulp x_def)
  have no: "\<not> \<bar>x\<bar> \<ge> DOUBLE_OVERFLOW"
  proof -
    have "(2::rat) ^ 53 < DOUBLE_OVERFLOW" by (simp add: DOUBLE_OVERFLOW_def)
    with xlt show ?thesis by linarith
  qed
  have "round_double x = Num (sgn x * \<bar>x\<bar>)"
    using xpos no unfolding round_double_def Let_def e_def [symmetric] n y by auto
  then show ?thesis by (simp add: x_def sgn_mult_abs)
qed

subsection \<open>The game number\<close>

lemma getGameNumber_div:
  "getGameNumber startDate currDate = - ((startDate - currDate) div 86400000)"
proof -
  have "\<lceil>(of_int (currDate - startDate) :: rat) / of_int 86400000\<rceil> =
        - (- (currDate - startDate) div 86400000)"
    by (rule ceiling_divide_eq_div)
  then show ?thesis by (simp add: getGameNumber_def)
qed

lemma getGameNumber_elapsed:
  "getGameNumber startDate t =
     (if (t - startDate) mod 86400000 = 0 then (t - startDate) div 86400000
      else (t - startDate) div 86400000 + 1)"
proof -
  define a where "a = t - startDate"
  have "- ((- a) div 86400000) =
        (if a mod 86400000 = 0 then a div 86400000 else a div 86400000 + 1)"
    by (simp add: zdiv_zminus1_eq_if)
  then show ?thesis
    unfolding getGameNumber_div a_def by simp
qed

lemma getGameNumber_localDay:
  assumes "localMidnight utcOffset startDate" and "utcOffset t = utcOffset startDate"
  shows "getGameNumber startDate t =
     (if localMidnight utcOffset t
      then localDay utcOffset t - localDay utcOffset startDate
      else localDay utcOffset t - localDay utcOffset startDate + 1)"
proof -
  define D :: int where "D = 86400000"
  define s where "s = startDate + utcOffset startDate"
  define l where "l = t + utcOffset t"
  have d: "t - startDate = l - s" using assms(2) by (simp add: l_def s_def)
  have s0: "s mod D = 0" using assms(1) by (simp add: localMidnight_def s_def D_def)
  then obtain k where k: "s = D * k" by (auto simp: mod_eq_0_iff_dvd)
  have dv: "(l - s) div D = l div D - s div D"
    unfolding k by (simp add: D_def div_mult_self2 [of _ _ "- k", simplified] algebra_simps)
  have md: "(l - s) mod D = l mod D"
    unfolding k by (metis mod_mult_self2 diff_conv_add_uminus mult_minus_right)
  show ?thesis
    unfolding getGameNumber_elapsed d
    using dv md
    by (simp add: localMidnight_def localDay_def D_def l_def [symmetric] s_def [symmetric])
qed

text \<open>The program divides in double arithmetic. The elapsed time is a multiple of
  \<open>1 / 86400000\<close> of a day and the rounding error of the quotient is smaller than that, so
  the ceiling of the rounded quotient is the ceiling of the exact one as long as the
  elapsed time is below \<open>2 ^ 53\<close> ms; a \<^verbatim>\<open>Date\<close> holds at most \<open>8.64 * 10 ^ 15\<close> ms on either
  side of the Unix epoch.\<close>

lemma getGameNumber_double_division:
  assumes "\<bar>currDate - startDate\<bar> < 2 ^ 53"
  shows "\<exists>d. js_div (Num (of_int (currDate - startDate))) (Num (1000 * 3600 * 24)) = Num d \<and>
             \<lceil>d\<rceil> = getGameNumber startDate currDate"
proof -
  define td where "td = currDate - startDate"
  define x :: rat where "x = of_int td / 86400000"
  define k where "k = \<lceil>x\<rceil>"
  have gk: "getGameNumber startDate currDate = k"
    by (simp add: getGameNumber_def k_def x_def td_def)
  have tdb: "\<bar>of_int td :: rat\<bar> < 2 ^ 53"
  proof -
    have "\<bar>of_int td :: rat\<bar> = of_int \<bar>td\<bar>" by simp
    also have "\<dots> < of_int (2 ^ 53)" using assms unfolding td_def by (simp only: of_int_less_iff)
    finally show ?thesis by simp
  qed
  have ax: "\<bar>x\<bar> = \<bar>of_int td\<bar> / 86400000" by (simp add: x_def)
  have xb: "\<bar>x\<bar> < 2 ^ 1023"
  proof -
    have "\<bar>x\<bar> \<le> \<bar>of_int td\<bar>" unfolding ax by (simp add: field_simps)
    also have "\<dots> < 2 ^ 53" by (rule tdb)
    also have "(2::rat) ^ 53 < 2 ^ 1023" by simp
    finally show ?thesis .
  qed
  have jd: "js_div (Num (of_int td)) (Num (1000 * 3600 * 24)) = round_double x"
    by (simp add: x_def)
  show ?thesis
  proof (cases "x = of_int k")
    case True
    have "\<bar>x\<bar> < 2 ^ 53" unfolding ax using tdb by (simp add: field_simps)
    then have "\<bar>of_int k :: rat\<bar> < of_int (2 ^ 53)" using True by simp
    then have "\<bar>k\<bar> < 2 ^ 53" by (simp only: of_int_abs [symmetric] of_int_less_iff)
    then have "round_double x = Num (of_int k)" unfolding True by (rule round_double_of_int)
    then show ?thesis unfolding td_def [symmetric] jd gk by simp
  next
    case False
    have kx: "x \<le> of_int k" "of_int k - 1 < x" unfolding k_def by linarith+
    have "of_int td < (of_int (k * 86400000) :: rat)"
      using kx(1) False by (simp add: x_def field_simps)
    then have "td < k * 86400000" by (simp only: of_int_less_iff)
    then have "td + 1 \<le> k * 86400000" by simp
    then have "(of_int (td + 1) :: rat) \<le> of_int (k * 86400000)" by (simp only: of_int_le_iff)
    then have up: "x + 1 / 86400000 \<le> of_int k" by (simp add: x_def field_simps)
    have "(of_int ((k - 1) * 86400000) :: rat) < of_int td"
      using kx(2) by (simp add: x_def field_simps)
    then have "(k - 1) * 86400000 < td" by (simp only: of_int_less_iff)
    then have "(k - 1) * 86400000 + 1 \<le> td" by simp
    then have "(of_int ((k - 1) * 86400000 + 1) :: rat) \<le> of_int td" by (simp only: of_int_le_iff)
    then have lo: "of_int k - 1 + 1 / 86400000 \<le> x" by (simp add: x_def field_simps)
    have xne: "x \<noteq> 0" using False kx by (auto simp: k_def)
    then have "td \<noteq> 0" by (auto simp: x_def)
    then have "1 \<le> \<bar>td\<bar>" by simp
    then have "(of_int 1 :: rat) \<le> of_int \<bar>td\<bar>" by (simp only: of_int_le_iff)
    then have "1 / 86400000 \<le> \<bar>x\<bar>" unfolding ax by (simp add: field_simps)
    moreover have "(1::rat) / 2 ^ 1022 \<le> 1 / 86400000" by simp
    ultimately have nrm: "1 / 2 ^ 1022 \<le> \<bar>x\<bar>" by linarith
    from round_double_finite [OF xb] nrm
    obtain d where d: "round_double x = Num d" "\<bar>d - x\<bar> \<le> \<bar>x\<bar> / 2 ^ 53" by blast
    have "\<bar>x\<bar> / 2 ^ 53 < 1 / 86400000"
      unfolding ax using tdb by (simp add: field_simps)
    with d(2) have "\<bar>d - x\<bar> < 1 / 86400000" by linarith
    with up lo have "of_int k - 1 < d" "d \<le> of_int k" by linarith+
    then have "\<lceil>d\<rceil> = k" by (simp add: ceiling_eq_iff)
    with d(1) show ?thesis unfolding td_def [symmetric] jd gk by simp
  qed
qed

text \<open>The expectations of the repository's own tests of \<^verbatim>\<open>getGameNumber\<close>, run in UTC:
  noon of the start date is game 1, midnight of 1 October 2023 is game 10, and 08:00 and
  23:59:59.999 of 22 September are both game 2.\<close>

lemma getGameNumber_repository_tests:
  "getGameNumber COSTCODLE_START_DATE_UTC 1695297600000 = 1"
  "getGameNumber COSTCODLE_START_DATE_UTC 1696118400000 = 10"
  "getGameNumber COSTCODLE_START_DATE_UTC 1695369600000 = 2"
  "getGameNumber COSTCODLE_START_DATE_UTC 1695427199999 = 2"
  by (simp_all add: getGameNumber_div COSTCODLE_START_DATE_UTC_def)

text \<open>
  C1 (as amended). For every start date and every timestamp, \<open>getGameNumber\<close> is the
  ceiling of the elapsed time divided by 86400000 ms; it is a total function. Every
  timestamp strictly after the start instant has a game number of at least 1, and every
  timestamp after the start instant and up to 24 hours later has game number exactly 1.
  Two timestamps on the same local calendar day have the same game number provided the
  zone's UTC offset at both is the one in force at the start date (the clocks have not
  been changed since) and neither is the midnight instant that begins the day; at such a
  midnight instant the game number is the number of days elapsed since the start date,
  which is the number of the day before.
\<close>

theorem getGameNumber_ceiling_days:
  "getGameNumber startDate now = \<lceil>(of_int (now - startDate) :: rat) / 86400000\<rceil> \<and>
   (startDate < now \<longrightarrow> 1 \<le> getGameNumber startDate now) \<and>
   (startDate < now \<and> now \<le> startDate + 86400000 \<longrightarrow> getGameNumber startDate now = 1) \<and>
   (localMidnight utcOffset startDate \<and>
    utcOffset now = utcOffset startDate \<and> utcOffset now' = utcOffset startDate \<and>
    localDay utcOffset now = localDay utcOffset now' \<and>
    \<not> localMidnight utcOffset now \<and> \<not> localMidnight utcOffset now' \<longrightarrow>
      getGameNumber startDate now = getGameNumber startDate now') \<and>
   (localMidnight utcOffset startDate \<and> utcOffset now = utcOffset startDate \<and>
    localMidnight utcOffset now \<longrightarrow>
      getGameNumber startDate now = localDay utcOffset now - localDay utcOffset startDate)"
proof (intro conjI impI)
  show "getGameNumber startDate now = \<lceil>(of_int (now - startDate) :: rat) / 86400000\<rceil>"
    by (simp add: getGameNumber_def)
  show "1 \<le> getGameNumber startDate now" if "startDate < now"
    using that unfolding getGameNumber_div by linarith
  show "getGameNumber startDate now = 1"
    if "startDate < now \<and> now \<le> startDate + 86400000"
    using that unfolding getGameNumber_div by linarith
  show "getGameNumber startDate now = getGameNumber startDate now'"
    if "localMidnight utcOffset startDate \<and>
        utcOffset now = utcOffset startDate \<and> utcOffset now' = utcOffset startDate \<and>
        localDay utcOffset now = localDay utcOffset now' \<and>
        \<not> localMidnight utcOffset now \<and> \<not> localMidnight utcOffset now'"
  proof -
    from that have m: "localMidnight utcOffset startDate"
      and o: "utcOffset now = utcOffset startDate" "utcOffset now' = utcOffset startDate"
      and d: "localDay utcOffset now = localDay utcOffset now'"
      and n: "\<not> localMidnight utcOffset now" "\<not> localMidnight utcOffset now'"
      by blast+
    show ?thesis
      unfolding getGameNumber_localDay [OF m o(1)] getGameNumber_localDay [OF m o(2)]
      using d n by simp
  qed
  show "getGameNumber startDate now = localDay utcOffset now - localDay utcOffset startDate"
    if "localMidnight utcOffset startDate \<and> utcOffset now = utcOffset startDate \<and>
        localMidnight utcOffset now"
  proof -
    from that have m: "localMidnight utcOffset startDate"
      and o: "utcOffset now = utcOffset startDate" and n: "localMidnight utcOffset now"
      by blast+
    show ?thesis
      unfolding getGameNumber_localDay [OF m o] using n by simp
  qed
qed

text \<open>Witness: in UTC, one o'clock and noon of the start date and midnight of the next
  day; in New York, noon and 23:30 of 1 October 2023.\<close>

theorem getGameNumber_ceiling_days_witness:
  "COSTCODLE_START_DATE_UTC < COSTCODLE_START_DATE_UTC + 43200000 \<and>
   COSTCODLE_START_DATE_UTC + 43200000 \<le> COSTCODLE_START_DATE_UTC + 86400000 \<and>
   localMidnight utcOffset_UTC COSTCODLE_START_DATE_UTC \<and>
   localDay utcOffset_UTC (COSTCODLE_START_DATE_UTC + 43200000) =
     localDay utcOffset_UTC (COSTCODLE_START_DATE_UTC + 3600000) \<and>
   \<not> localMidnight utcOffset_UTC (COSTCODLE_START_DATE_UTC + 43200000) \<and>
   \<not> localMidnight utcOffset_UTC (COSTCODLE_START_DATE_UTC + 3600000) \<and>
   localMidnight utcOffset_UTC (COSTCODLE_START_DATE_UTC + 86400000) \<and>
   getGameNumber COSTCODLE_START_DATE_UTC (COSTCODLE_START_DATE_UTC + 43200000) = 1 \<and>
   getGameNumber COSTCODLE_START_DATE_UTC (COSTCODLE_START_DATE_UTC + 3600000) = 1 \<and>
   getGameNumber COSTCODLE_START_DATE_UTC (COSTCODLE_START_DATE_UTC + 86400000) = 1 \<and>
   localMidnight utcOffset_New_York COSTCODLE_START_DATE_New_York \<and>
   utcOffset_New_York 1696176000000 = utcOffset_New_York COSTCODLE_START_DATE_New_York \<and>
   utcOffset_New_York 1696217400000 = utcOffset_New_York COSTCODLE_START_DATE_New_York \<and>
   localDay utcOffset_New_York 1696176000000 = localDay utcOffset_New_York 1696217400000 \<and>
   getGameNumber COSTCODLE_START_DATE_New_York 1696176000000 = 11 \<and>
   getGameNumber COSTCODLE_START_DATE_New_York 1696217400000 = 11"
proof -
  let ?S = COSTCODLE_START_DATE_UTC
  let ?N = COSTCODLE_START_DATE_New_York
  have S: "?S = 1695254400000" by (simp add: COSTCODLE_START_DATE_UTC_def)
  have N: "?N = 1695268800000" by (simp add: COSTCODLE_START_DATE_New_York_def)
  have u: "localMidnight utcOffset_UTC ?S"
    "localDay utcOffset_UTC (?S + 43200000) = localDay utcOffset_UTC (?S + 3600000)"
    "\<not> localMidnight utcOffset_UTC (?S + 43200000)"
    "\<not> localMidnight utcOffset_UTC (?S + 3600000)"
    "localMidnight utcOffset_UTC (?S + 86400000)"
    "localDay utcOffset_UTC (?S + 86400000) - localDay utcOffset_UTC ?S = 1"
    "utcOffset_UTC (?S + 43200000) = utcOffset_UTC ?S"
    "utcOffset_UTC (?S + 3600000) = utcOffset_UTC ?S"
    "utcOffset_UTC (?S + 86400000) = utcOffset_UTC ?S"
    by (simp_all add: localMidnight_def localDay_def utcOffset_UTC_def S)
  have n: "localMidnight utcOffset_New_York ?N"
    "utcOffset_New_York 1696176000000 = utcOffset_New_York ?N"
    "utcOffset_New_York 1696217400000 = utcOffset_New_York ?N"
    "localDay utcOffset_New_York 1696176000000 = localDay utcOffset_New_York 1696217400000"
    "\<not> localMidnight utcOffset_New_York 1696176000000"
    "\<not> localMidnight utcOffset_New_York 1696217400000"
    by (simp_all add: localMidnight_def localDay_def utcOffset_New_York_def N)
  have lt: "?S < ?S + 43200000" "?S + 43200000 \<le> ?S + 86400000" by simp_all
  from getGameNumber_ceiling_days [of ?S "?S + 43200000" utcOffset_UTC "?S + 3600000"] lt u
  have a: "getGameNumber ?S (?S + 43200000) = 1"
    "getGameNumber ?S (?S + 43200000) = getGameNumber ?S (?S + 3600000)"
    by blast+
  from getGameNumber_ceiling_days [of ?S "?S + 86400000" utcOffset_UTC "?S + 86400000"] u
  have b: "getGameNumber ?S (?S + 86400000) =
      localDay utcOffset_UTC (?S + 86400000) - localDay utcOffset_UTC ?S"
    by blast
  from getGameNumber_ceiling_days [of ?N 1696176000000 utcOffset_New_York 1696217400000] n
  have c: "getGameNumber ?N 1696176000000 = getGameNumber ?N 1696217400000"
    by blast
  have d: "getGameNumber ?N 1696176000000 = 11"
    by (simp add: getGameNumber_div N)
  from a b c d u n lt show ?thesis by simp
qed

text \<open>Counterexample to C1 as stated. At the start instant itself, a timestamp \<open>\<ge>\<close> the
  epoch and a time of day on the epoch date, the game number is 0, while a millisecond
  later on the same day it is 1. In New York, noon and 23:30 of 5 November 2023, the day
  the clocks went back, lie on one calendar day and neither is a midnight, yet their
  game numbers are 46 and 47.\<close>

theorem getGameNumber_at_start_counterexample:
  "COSTCODLE_START_DATE_UTC \<le> COSTCODLE_START_DATE_UTC \<and>
   localDay utcOffset_UTC COSTCODLE_START_DATE_UTC =
     localDay utcOffset_UTC (COSTCODLE_START_DATE_UTC + 1) \<and>
   getGameNumber COSTCODLE_START_DATE_UTC COSTCODLE_START_DATE_UTC = 0 \<and>
   getGameNumber COSTCODLE_START_DATE_UTC (COSTCODLE_START_DATE_UTC + 1) = 1 \<and>
   localMidnight utcOffset_New_York COSTCODLE_START_DATE_New_York \<and>
   localDay utcOffset_New_York 1699203600000 = localDay utcOffset_New_York 1699245000000 \<and>
   \<not> localMidnight utcOffset_New_York 1699203600000 \<and>
   \<not> localMidnight utcOffset_New_York 1699245000000 \<and>
   getGameNumber COSTCODLE_START_DATE_New_York 1699203600000 = 46 \<and>
   getGameNumber COSTCODLE_START_DATE_New_York 1699245000000 = 47"
  by (simp add: getGameNumber_div localDay_def localMidnight_def utcOffset_UTC_def
      utcOffset_New_York_def COSTCODLE_START_DATE_UTC_def COSTCODLE_START_DATE_New_York_def)

subsection \<open>Reconciliation with the stored session\<close>

text \<open>
  C2 (as amended). In daily mode, when the stored session's game number differs from the
  current one, \<open>initializeGame\<close> sets \<open>currentStreak\<close> to 0 when the stored session has
  \<open>hasWon = False\<close>, whether or not its game number is the sentinel \<open>- 1\<close>, and leaves
  \<open>currentStreak\<close> as it is when \<open>hasWon = True\<close>; it resets the session to no guesses,
  not won, for the current game number; and it adds exactly 1 to \<open>numGames\<close>, leaving the
  other statistics unchanged.
\<close>

theorem initializeGame_daily_stale:
  assumes "\<not> isArchiveMode s" and "gameNumber (gameState s) \<noteq> state_gameNumber s"
  shows "currentStreak (userStats (initializeGame s)) =
           (if hasWon (gameState s) then currentStreak (userStats s) else 0) \<and>
         gameState (initializeGame s) =
           \<lparr>gameNumber = state_gameNumber s, guesses = [], hasWon = False\<rparr> \<and>
         numGames (userStats (initializeGame s)) = numGames (userStats s) + 1 \<and>
         numWins (userStats (initializeGame s)) = numWins (userStats s) \<and>
         winsInNum (userStats (initializeGame s)) = winsInNum (userStats s) \<and>
         maxStreak (userStats (initializeGame s)) = maxStreak (userStats s)"
  using assms by (simp add: initializeGame_def Let_def)

text \<open>Witness: yesterday's unsolved game 5 is replaced by game 6; the streak of two is
  lost and a fourth game is counted.\<close>

theorem initializeGame_daily_stale_witness:
  "\<not> isArchiveMode abandoned_yesterday \<and>
   gameNumber (gameState abandoned_yesterday) \<noteq> state_gameNumber abandoned_yesterday \<and>
   currentStreak (userStats abandoned_yesterday) = 2 \<and>
   currentStreak (userStats (initializeGame abandoned_yesterday)) = 0 \<and>
   gameState (initializeGame abandoned_yesterday) =
     \<lparr>gameNumber = 6, guesses = [], hasWon = False\<rparr> \<and>
   numGames (userStats (initializeGame abandoned_yesterday)) = 4"
proof -
  have h1: "\<not> isArchiveMode abandoned_yesterday"
    by (simp add: abandoned_yesterday_def)
  have h2: "gameNumber (gameState abandoned_yesterday) \<noteq> state_gameNumber abandoned_yesterday"
    by (simp add: abandoned_yesterday_def)
  from initializeGame_daily_stale [OF h1 h2] h1 h2 show ?thesis
    by (simp add: abandoned_yesterday_def)
qed

text \<open>Counterexample to C2 as stated: the stored session is the default one, so its game
  number is the sentinel and it is not won; the claim's condition for a reset is false,
  yet the streak of two is set to 0.\<close>

theorem initializeGame_unset_streak_counterexample:
  "\<not> isArchiveMode session_unset \<and>
   gameState session_unset = DEFAULT_GAME_STATE \<and>
   gameNumber (gameState session_unset) = - 1 \<and>
   gameNumber (gameState session_unset) \<noteq> state_gameNumber session_unset \<and>
   \<not> (hasWon (gameState session_unset) = False \<and> gameNumber (gameState session_unset) \<noteq> - 1) \<and>
   currentStreak (userStats session_unset) = 2 \<and>
   currentStreak (userStats (initializeGame session_unset)) = 0"
  by (simp add: session_unset_def abandoned_yesterday_def DEFAULT_GAME_STATE_def
      initializeGame_def Let_def)

text \<open>
  C7. In daily mode, reconciling with the game number that the stored session already
  has returns the stored session and the statistics unchanged, partial guesses included,
  and reconciling a second time changes nothing more: \<open>numGames\<close> is not incremented
  twice.
\<close>

theorem reconcile_daily_current_idempotent:
  assumes "gameNumber (gameState s) = requestedIndex"
  shows "gameState (reconcile requestedIndex False s) = gameState s \<and>
         userStats (reconcile requestedIndex False s) = userStats s \<and>
         reconcile requestedIndex False (reconcile requestedIndex False s) =
           reconcile requestedIndex False s"
  using assms by (simp add: reconcile_def initializeGame_def)

text \<open>Witness: today's game 6 with one wrong guess is resumed as it is.\<close>

theorem reconcile_daily_current_idempotent_witness:
  "gameNumber (gameState one_miss) = 6 \<and>
   guesses (gameState (reconcile 6 False one_miss)) =
     [\<lparr>guess = 1, closeness = FAR, direction = UP\<rparr>] \<and>
   numGames (userStats (reconcile 6 False (reconcile 6 False one_miss))) = 3 \<and>
   reconcile 6 False (reconcile 6 False one_miss) = reconcile 6 False one_miss"
proof -
  have h: "gameNumber (gameState one_miss) = 6"
    by (simp add: one_miss_def)
  from reconcile_daily_current_idempotent [OF h] h show ?thesis
    by (simp add: one_miss_def abandoned_yesterday_def)
qed

subsection \<open>Recording a guess\<close>

lemma processGuess_cases:
  "processGuess userInput s = (False, s) \<or>
   (\<exists>v. userInput \<noteq> [] \<and> validatePriceInput userInput = Valid v \<and> canGuess s \<and>
        processGuess userInput s =
          (True, let g = createGuessObject v s; s1 = addGuess g s
                 in if closeness g = WIN then setGameWon s1
                    else if length (guesses (gameState s1)) \<ge> MAX_GUESSES then setGameLost s1
                    else s1))"
  by (cases "validatePriceInput userInput") (auto simp: processGuess_def Let_def)

lemma processGuess_accepted:
  assumes "userInput \<noteq> []" and "validatePriceInput userInput = Valid v" and "canGuess s"
  shows "processGuess userInput s =
          (True, let g = createGuessObject v s; s1 = addGuess g s
                 in if closeness g = WIN then setGameWon s1
                    else if length (guesses (gameState s1)) \<ge> MAX_GUESSES then setGameLost s1
                    else s1)"
  using assms by (simp add: processGuess_def Let_def)

lemma gameState_setGameWon: "gameState (setGameWon s) = (gameState s)\<lparr>hasWon := True\<rparr>"
  by (simp add: setGameWon_def Let_def)

lemma gameState_setGameLost: "gameState (setGameLost s) = gameState s"
  by (simp add: setGameLost_def)

lemma gameState_addGuess:
  "gameState (addGuess g s) = (gameState s)\<lparr>guesses := guesses (gameState s) @ [g]\<rparr>"
  by (simp add: addGuess_def)

lemma setGameWon_daily_stats:
  assumes "\<not> isArchiveMode s"
  shows "numWins (userStats (setGameWon s)) = numWins (userStats s) + 1"
    and "numGames (userStats (setGameWon s)) = numGames (userStats s)"
    and "currentStreak (userStats (setGameWon s)) = currentStreak (userStats s) + 1"
    and "maxStreak (userStats (setGameWon s)) =
           max (maxStreak (userStats s)) (currentStreak (userStats s) + 1)"
    and "guesses (gameState s) \<noteq> [] \<Longrightarrow>
         length (guesses (gameState s)) \<le> length (winsInNum (userStats s)) \<Longrightarrow>
         winsInNum (userStats (setGameWon s)) =
           (winsInNum (userStats s))[length (guesses (gameState s)) - 1 :=
              winsInNum (userStats s) ! (length (guesses (gameState s)) - 1) + 1]"
  using assms
  by (auto simp: setGameWon_def Let_def max_def nat_diff_distrib' int_ops)

text \<open>The array \<open>winsInNum\<close> keeps its \<open>MAX_GUESSES\<close> entries in every state that a
  sequence of operations reaches from the initial state.\<close>

lemma winsInNum_length_setGameWon:
  "length (winsInNum (userStats (setGameWon s))) = length (winsInNum (userStats s))"
  by (simp add: setGameWon_def Let_def)

lemma winsInNum_setGameLost:
  "winsInNum (userStats (setGameLost s)) = winsInNum (userStats s)"
  by (simp add: setGameLost_def)

lemma userStats_addGuess: "userStats (addGuess g s) = userStats s"
  by (simp add: addGuess_def)

lemma winsInNum_length_processGuess:
  "length (winsInNum (userStats (snd (processGuess userInput s)))) =
   length (winsInNum (userStats s))"
  using processGuess_cases [of userInput s]
  by (auto simp: Let_def winsInNum_length_setGameWon winsInNum_setGameLost userStats_addGuess)

lemma winsInNum_length_step:
  "length (winsInNum (userStats (step a s))) = length (winsInNum (userStats s))"
  by (cases a)
     (simp_all add: reconcile_def initializeGame_def Let_def setProductData_def
        winsInNum_length_processGuess winsInNum_length_setGameWon winsInNum_setGameLost)

lemma winsInNum_length_run:
  "length (winsInNum (userStats (run acts initial_state))) = MAX_GUESSES"
proof -
  have "length (winsInNum (userStats (run acts s))) = length (winsInNum (userStats s))" for s
    by (induction acts arbitrary: s) (simp_all add: winsInNum_length_step)
  then show ?thesis
    by (simp add: initial_state_def DEFAULT_USER_STATS_def MAX_GUESSES_def)
qed

text \<open>The example inputs and states evaluate as follows.\<close>

lemma example_inputs:
  "validatePriceInput ''100'' = Valid 100"
  "validatePriceInput ''1'' = Valid 1"
  by code_simp+

lemma example_guesses:
  "createGuessObject 100 one_miss = \<lparr>guess = 100, closeness = WIN, direction = CHECK\<rparr>"
  "createGuessObject 1 five_misses = \<lparr>guess = 1, closeness = FAR, direction = UP\<rparr>"
  by code_simp+

lemma example_canGuess:
  "canGuess one_miss" "canGuess five_misses"
  by code_simp+

lemma example_sixth_guess:
  "length (guesses (gameState (snd (processGuess ''1'' five_misses)))) = 6"
  by code_simp

text \<open>
  C4. When an accepted guess has closeness \<open>WIN\<close>, the session's \<open>hasWon\<close> flag becomes
  true, and in daily mode \<open>numWins\<close> grows by 1, the entry of \<open>winsInNum\<close> at index
  \<open>length guesses - 1\<close> (the guess just made included) grows by 1, \<open>currentStreak\<close> grows
  by 1 and \<open>maxStreak\<close> becomes the maximum of its old value and the new
  \<open>currentStreak\<close>. When the guess is not a win and brings the number of guesses to
  \<open>MAX_GUESSES\<close>, in daily mode \<open>currentStreak\<close> becomes 0. (The array \<open>winsInNum\<close> has
  \<open>MAX_GUESSES\<close> entries, as in the data model.)
\<close>

theorem processGuess_win_and_loss_stats:
  assumes "userInput \<noteq> []" and "validatePriceInput userInput = Valid v" and "canGuess s"
  shows
   "(let g = createGuessObject v s; s' = snd (processGuess userInput s)
     in (closeness g = WIN \<longrightarrow>
           hasWon (gameState s') \<and>
           guesses (gameState s') = guesses (gameState s) @ [g] \<and>
           (\<not> isArchiveMode s \<longrightarrow>
              numWins (userStats s') = numWins (userStats s) + 1 \<and>
              currentStreak (userStats s') = currentStreak (userStats s) + 1 \<and>
              maxStreak (userStats s') =
                max (maxStreak (userStats s)) (currentStreak (userStats s')) \<and>
              numGames (userStats s') = numGames (userStats s) \<and>
              (length (winsInNum (userStats s)) = MAX_GUESSES \<longrightarrow>
                 winsInNum (userStats s') =
                   (winsInNum (userStats s))[length (guesses (gameState s')) - 1 :=
                      winsInNum (userStats s) ! (length (guesses (gameState s')) - 1) + 1]))) \<and>
        (closeness g \<noteq> WIN \<and> length (guesses (gameState s')) = MAX_GUESSES \<longrightarrow>
           \<not> hasWon (gameState s') \<and>
           guesses (gameState s') = guesses (gameState s) @ [g] \<and>
           (\<not> isArchiveMode s \<longrightarrow>
              currentStreak (userStats s') = 0 \<and>
              numWins (userStats s') = numWins (userStats s) \<and>
              numGames (userStats s') = numGames (userStats s) \<and>
              maxStreak (userStats s') = maxStreak (userStats s) \<and>
              winsInNum (userStats s') = winsInNum (userStats s))))"
proof -
  define g where "g = createGuessObject v s"
  define s1 where "s1 = addGuess g s"
  have len: "length (guesses (gameState s)) < MAX_GUESSES" and nw: "\<not> hasWon (gameState s)"
    using assms(3) by (simp_all add: canGuess_def)
  have s1_gs: "gameState s1 = (gameState s)\<lparr>guesses := guesses (gameState s) @ [g]\<rparr>"
    and s1_us: "userStats s1 = userStats s"
    and s1_mode: "isArchiveMode s1 = isArchiveMode s"
    by (simp_all add: s1_def addGuess_def)
  have pg: "snd (processGuess userInput s) =
        (if closeness g = WIN then setGameWon s1
         else if length (guesses (gameState s1)) \<ge> MAX_GUESSES then setGameLost s1
         else s1)"
    using processGuess_accepted [OF assms] by (simp add: Let_def g_def s1_def)
  have win: "closeness g = WIN \<Longrightarrow> snd (processGuess userInput s) = setGameWon s1"
    by (simp add: pg)
  have lost: "closeness g \<noteq> WIN \<Longrightarrow>
      length (guesses (gameState (snd (processGuess userInput s)))) = MAX_GUESSES \<Longrightarrow>
      snd (processGuess userInput s) = setGameLost s1"
    by (auto simp: pg s1_gs gameState_setGameLost)
  have A: "closeness g = WIN \<longrightarrow>
           hasWon (gameState (setGameWon s1)) \<and>
           guesses (gameState (setGameWon s1)) = guesses (gameState s) @ [g] \<and>
           (\<not> isArchiveMode s \<longrightarrow>
              numWins (userStats (setGameWon s1)) = numWins (userStats s) + 1 \<and>
              currentStreak (userStats (setGameWon s1)) = currentStreak (userStats s) + 1 \<and>
              maxStreak (userStats (setGameWon s1)) =
                max (maxStreak (userStats s)) (currentStreak (userStats (setGameWon s1))) \<and>
              numGames (userStats (setGameWon s1)) = numGames (userStats s) \<and>
              (length (winsInNum (userStats s)) = MAX_GUESSES \<longrightarrow>
                 winsInNum (userStats (setGameWon s1)) =
                   (winsInNum (userStats s))[length (guesses (gameState (setGameWon s1))) - 1 :=
                      winsInNum (userStats s) !
                        (length (guesses (gameState (setGameWon s1))) - 1) + 1]))"
    using len setGameWon_daily_stats [of s1]
    by (simp add: gameState_setGameWon s1_gs s1_us s1_mode)
  have B: "closeness g \<noteq> WIN \<longrightarrow>
           \<not> hasWon (gameState (setGameLost s1)) \<and>
           guesses (gameState (setGameLost s1)) = guesses (gameState s) @ [g] \<and>
           (\<not> isArchiveMode s \<longrightarrow>
              currentStreak (userStats (setGameLost s1)) = 0 \<and>
              numWins (userStats (setGameLost s1)) = numWins (userStats s) \<and>
              numGames (userStats (setGameLost s1)) = numGames (userStats s) \<and>
              maxStreak (userStats (setGameLost s1)) = maxStreak (userStats s) \<and>
              winsInNum (userStats (setGameLost s1)) = winsInNum (userStats s))"
    using nw by (simp add: gameState_setGameLost s1_gs) (simp add: setGameLost_def s1_us s1_mode)
  show ?thesis
    unfolding Let_def g_def [symmetric]
    using A B win lost by metis
qed

text \<open>Witness: a winning second guess on game 6, and a wrong sixth guess on game 6, both
  in daily mode with a streak of two.\<close>

theorem processGuess_win_and_loss_stats_witness:
  "''100'' \<noteq> [] \<and> validatePriceInput ''100'' = Valid 100 \<and> canGuess one_miss \<and>
   closeness (createGuessObject 100 one_miss) = WIN \<and>
   \<not> isArchiveMode one_miss \<and> length (winsInNum (userStats one_miss)) = MAX_GUESSES \<and>
   hasWon (gameState (snd (processGuess ''100'' one_miss))) \<and>
   userStats (snd (processGuess ''100'' one_miss)) =
     \<lparr>numGames = 3, numWins = 3, winsInNum = [2, 1, 0, 0, 0, 0],
      currentStreak = 3, maxStreak = 3\<rparr> \<and>
   ''1'' \<noteq> [] \<and> validatePriceInput ''1'' = Valid 1 \<and> canGuess five_misses \<and>
   closeness (createGuessObject 1 five_misses) \<noteq> WIN \<and>
   length (guesses (gameState (snd (processGuess ''1'' five_misses)))) = MAX_GUESSES \<and>
   \<not> isArchiveMode five_misses \<and>
   currentStreak (userStats five_misses) = 2 \<and>
   userStats (snd (processGuess ''1'' five_misses)) =
     \<lparr>numGames = 3, numWins = 2, winsInNum = [2, 0, 0, 0, 0, 0],
      currentStreak = 0, maxStreak = 2\<rparr>"
proof -
  have ne: "''100'' \<noteq> []" "''1'' \<noteq> []" by simp_all
  have st: "\<not> isArchiveMode one_miss" "\<not> isArchiveMode five_misses"
    "userStats one_miss = \<lparr>numGames = 3, numWins = 2, winsInNum = [2, 0, 0, 0, 0, 0],
        currentStreak = 2, maxStreak = 2\<rparr>"
    "userStats five_misses = \<lparr>numGames = 3, numWins = 2, winsInNum = [2, 0, 0, 0, 0, 0],
        currentStreak = 2, maxStreak = 2\<rparr>"
    "length (guesses (gameState one_miss)) = 1"
    "length (guesses (gameState five_misses)) = 5"
    by (simp_all add: one_miss_def five_misses_def abandoned_yesterday_def)
  note w = processGuess_win_and_loss_stats
             [OF ne(1) example_inputs(1) example_canGuess(1), unfolded Let_def]
  note l = processGuess_win_and_loss_stats
             [OF ne(2) example_inputs(2) example_canGuess(2), unfolded Let_def]
  have W: "hasWon (gameState (snd (processGuess ''100'' one_miss)))"
    "userStats (snd (processGuess ''100'' one_miss)) =
       \<lparr>numGames = 3, numWins = 3, winsInNum = [2, 1, 0, 0, 0, 0],
        currentStreak = 3, maxStreak = 3\<rparr>"
    using w st by (simp_all add: example_guesses MAX_GUESSES_def UserStats.equality)
  have L: "length (guesses (gameState (snd (processGuess ''1'' five_misses)))) = MAX_GUESSES"
    "userStats (snd (processGuess ''1'' five_misses)) =
       \<lparr>numGames = 3, numWins = 2, winsInNum = [2, 0, 0, 0, 0, 0],
        currentStreak = 0, maxStreak = 2\<rparr>"
    using l st example_sixth_guess
    by (simp_all add: example_guesses MAX_GUESSES_def UserStats.equality)
  show ?thesis
    using W L st example_inputs example_canGuess
    by (simp add: example_guesses MAX_GUESSES_def)
qed

text \<open>
  C5. \<open>processGuess\<close> accepts no guess once the session is won or has \<open>MAX_GUESSES\<close> (6)
  guesses: the call returns false and leaves the whole state, session and statistics, as
  it was. Every call that returns false leaves the state unchanged, and every accepted
  call appends exactly one guess to the end of the list, so the number of guesses grows
  by exactly 1 per accepted call and never decreases.
\<close>

theorem processGuess_guard_and_append:
  "MAX_GUESSES = 6 \<and>
   (hasWon (gameState s) \<or> length (guesses (gameState s)) \<ge> MAX_GUESSES \<longrightarrow>
      processGuess userInput s = (False, s)) \<and>
   (\<not> fst (processGuess userInput s) \<longrightarrow> snd (processGuess userInput s) = s) \<and>
   (fst (processGuess userInput s) \<longrightarrow>
      length (guesses (gameState (snd (processGuess userInput s)))) =
        length (guesses (gameState s)) + 1 \<and>
      butlast (guesses (gameState (snd (processGuess userInput s)))) = guesses (gameState s)) \<and>
   length (guesses (gameState s)) \<le> length (guesses (gameState (snd (processGuess userInput s))))"
proof -
  have rej: "processGuess userInput s = (False, s)"
    if "hasWon (gameState s) \<or> length (guesses (gameState s)) \<ge> MAX_GUESSES"
    using that
    by (cases "validatePriceInput userInput") (auto simp: processGuess_def canGuess_def)
  have acc: "guesses (gameState (snd (processGuess userInput s))) =
      guesses (gameState s) @ [createGuessObject v s]"
    if "userInput \<noteq> []" "validatePriceInput userInput = Valid v" "canGuess s" for v
    using processGuess_accepted [OF that]
    by (simp add: Let_def gameState_setGameWon gameState_setGameLost gameState_addGuess)
  from processGuess_cases [of userInput s] rej acc show ?thesis
    by (auto simp: MAX_GUESSES_def)
qed

text \<open>Witness: a guess on a won game is refused, a valid guess on an open game is
  appended, and a malformed input changes nothing.\<close>

theorem processGuess_guard_and_append_witness:
  "hasWon (gameState won_today) \<and>
   processGuess ''100'' won_today = (False, won_today) \<and>
   fst (processGuess ''100'' one_miss) \<and>
   length (guesses (gameState one_miss)) = 1 \<and>
   length (guesses (gameState (snd (processGuess ''100'' one_miss)))) = 2 \<and>
   \<not> fst (processGuess ''abc'' one_miss) \<and>
   snd (processGuess ''abc'' one_miss) = one_miss"
proof -
  have won: "hasWon (gameState won_today)"
    by (simp add: won_today_def)
  have len: "length (guesses (gameState one_miss)) = 1"
    by (simp add: one_miss_def abandoned_yesterday_def)
  have acc: "fst (processGuess ''100'' one_miss)" by code_simp
  have rej: "\<not> fst (processGuess ''abc'' one_miss)" by code_simp
  from processGuess_guard_and_append [of won_today "''100''"] won
  have "processGuess ''100'' won_today = (False, won_today)" by simp
  moreover from processGuess_guard_and_append [of one_miss "''100''"] acc len
  have "length (guesses (gameState (snd (processGuess ''100'' one_miss)))) = 2" by simp
  moreover from processGuess_guard_and_append [of one_miss "''abc''"] rej
  have "snd (processGuess ''abc'' one_miss) = one_miss" by simp
  ultimately show ?thesis using won len acc rej by simp
qed

subsection \<open>Archive mode and the statistics\<close>

lemma archive_setGameWon:
  "isArchiveMode s \<Longrightarrow> userStats (setGameWon s) = userStats s \<and> isArchiveMode (setGameWon s)"
  by (simp add: setGameWon_def Let_def)

lemma archive_setGameLost:
  "isArchiveMode s \<Longrightarrow> userStats (setGameLost s) = userStats s \<and> isArchiveMode (setGameLost s)"
  by (simp add: setGameLost_def)

lemma archive_addGuess:
  "isArchiveMode (addGuess g s) = isArchiveMode s \<and> userStats (addGuess g s) = userStats s"
  by (simp add: addGuess_def)

lemma archive_processGuess:
  assumes "isArchiveMode s"
  shows "userStats (snd (processGuess userInput s)) = userStats s \<and>
         isArchiveMode (snd (processGuess userInput s))"
  using processGuess_cases [of userInput s] assms
  by (auto simp: Let_def archive_setGameWon archive_setGameLost archive_addGuess)

lemma archive_step:
  assumes "isArchiveMode s" and "archive_action a"
  shows "userStats (step a s) = userStats s \<and> isArchiveMode (step a s)"
proof (cases a)
  case (Reconcile n m)
  with assms show ?thesis by (simp add: reconcile_def initializeGame_def)
next
  case (RecordGuess inp)
  with assms show ?thesis by (simp add: archive_processGuess)
next
  case (LoadProduct n p i)
  with assms show ?thesis by (simp add: setProductData_def)
next
  case GameWon
  with assms show ?thesis by (simp add: archive_setGameWon)
next
  case GameLost
  with assms show ?thesis by (simp add: archive_setGameLost)
qed

lemma archive_run:
  "isArchiveMode s \<Longrightarrow> list_all archive_action acts \<Longrightarrow>
   userStats (run acts s) = userStats s \<and> isArchiveMode (run acts s)"
proof (induction acts arbitrary: s)
  case Nil
  then show ?case by simp
next
  case (Cons a acts)
  then show ?case using archive_step [of s a] by simp
qed

text \<open>
  C3. In archive mode, reconciliation always produces a fresh session (no guesses, not
  won, game number the requested one) whatever the stored session holds, and leaves the
  statistics untouched; and over any sequence of archive-mode reconciliations, guesses,
  wins and losses, every field of the statistics stays as it was.
\<close>

theorem archive_mode_leaves_stats:
  "gameState (reconcile requestedIndex True s) =
     \<lparr>gameNumber = requestedIndex, guesses = [], hasWon = False\<rparr> \<and>
   userStats (reconcile requestedIndex True s) = userStats s \<and>
   (isArchiveMode s \<and> list_all archive_action acts \<longrightarrow>
      userStats (run acts s) = userStats s)"
  using archive_run [of s acts] by (simp add: reconcile_def initializeGame_def)

text \<open>Witness: two archived games, one won at the first guess and one given up, leave the
  default statistics in place.\<close>

theorem archive_mode_leaves_stats_witness:
  "isArchiveMode archive_start \<and> list_all archive_action archive_session \<and>
   hasWon (gameState (run (take 3 archive_session) archive_start)) \<and>
   userStats (run archive_session archive_start) = DEFAULT_USER_STATS"
proof -
  have h: "isArchiveMode archive_start" "list_all archive_action archive_session"
    by (simp_all add: archive_start_def archive_session_def)
  have w: "hasWon (gameState (run (take 3 archive_session) archive_start))"
    by code_simp
  from archive_mode_leaves_stats [of 3 archive_start archive_session] h w show ?thesis
    by (simp add: archive_start_def initial_state_def)
qed

subsection \<open>Invariants of the statistics\<close>

lemma streak_initializeGame:
  "streak_ok (userStats s) \<Longrightarrow> streak_ok (userStats (initializeGame s))"
  by (simp add: initializeGame_def streak_ok_def Let_def)

lemma streak_setGameWon:
  "streak_ok (userStats s) \<Longrightarrow> streak_ok (userStats (setGameWon s))"
  by (auto simp: setGameWon_def streak_ok_def Let_def max_def)

lemma streak_setGameLost:
  "streak_ok (userStats s) \<Longrightarrow> streak_ok (userStats (setGameLost s))"
  by (simp add: setGameLost_def streak_ok_def)

lemma streak_processGuess:
  assumes "streak_ok (userStats s)"
  shows "streak_ok (userStats (snd (processGuess userInput s)))"
proof -
  have "streak_ok (userStats (addGuess g s))" for g
    using assms by (simp add: addGuess_def)
  then show ?thesis
    using processGuess_cases [of userInput s] assms
    by (auto simp: Let_def streak_setGameWon streak_setGameLost)
qed

lemma streak_step: "streak_ok (userStats s) \<Longrightarrow> streak_ok (userStats (step a s))"
  by (cases a)
     (simp_all add: reconcile_def streak_initializeGame streak_processGuess
        streak_setGameWon streak_setGameLost setProductData_def)

lemma streak_run: "streak_ok (userStats s) \<Longrightarrow> streak_ok (userStats (run acts s))"
  by (induction acts arbitrary: s) (simp_all add: streak_step)

lemma counted_initializeGame: "counted s \<Longrightarrow> counted (initializeGame s)"
  by (auto simp add: initializeGame_def counted_def Let_def split: if_splits)

lemma counted_reconcile: "counted s \<Longrightarrow> counted (reconcile n False s)"
  unfolding reconcile_def by (rule counted_initializeGame) (simp add: counted_def)

lemma counted_win:
  "counted s \<Longrightarrow> \<not> hasWon (gameState s) \<Longrightarrow> counted (setGameWon (addGuess g s))"
  by (simp add: counted_def setGameWon_def addGuess_def Let_def)

lemma counted_lost: "counted s \<Longrightarrow> counted (setGameLost (addGuess g s))"
  by (simp add: counted_def setGameLost_def addGuess_def)

lemma counted_add: "counted s \<Longrightarrow> counted (addGuess g s)"
  by (simp add: counted_def addGuess_def)

lemma counted_processGuess:
  assumes "counted s"
  shows "counted (snd (processGuess userInput s))"
proof -
  from processGuess_cases [of userInput s] show ?thesis
  proof (elim disjE exE conjE)
    assume "processGuess userInput s = (False, s)"
    with assms show ?thesis by simp
  next
    fix v
    assume cg: "canGuess s"
      and eq: "processGuess userInput s =
          (True, let g = createGuessObject v s; s1 = addGuess g s
                 in if closeness g = WIN then setGameWon s1
                    else if length (guesses (gameState s1)) \<ge> MAX_GUESSES then setGameLost s1
                    else s1)"
    from cg have "\<not> hasWon (gameState s)" by (simp add: canGuess_def)
    with assms show ?thesis
      unfolding eq by (simp add: Let_def counted_win counted_lost counted_add)
  qed
qed

lemma counted_step: "counted s \<Longrightarrow> daily_play a \<Longrightarrow> counted (step a s)"
  by (cases a)
     (simp_all add: counted_reconcile counted_processGuess, simp add: counted_def setProductData_def)

lemma counted_run: "counted s \<Longrightarrow> list_all daily_play acts \<Longrightarrow> counted (run acts s)"
  by (induction acts arbitrary: s) (simp_all add: counted_step)

lemma counted_first: "n \<noteq> - 1 \<Longrightarrow> counted (reconcile n False initial_state)"
  by (simp add: reconcile_def initializeGame_def initial_state_def DEFAULT_GAME_STATE_def
      DEFAULT_USER_STATS_def counted_def Let_def)

text \<open>The streak counters stay ordered along every sequence of operations, in either
  mode, and in daily play that begins with a reconciliation to a game number other than
  the sentinel the wins never exceed the games.\<close>

lemma reachable_streak_le_maxStreak:
  "currentStreak (userStats (run acts initial_state))
     \<le> maxStreak (userStats (run acts initial_state))"
proof -
  have "streak_ok (userStats initial_state)"
    by (simp add: streak_ok_def initial_state_def DEFAULT_USER_STATS_def)
  then have "streak_ok (userStats (run acts initial_state))"
    by (rule streak_run)
  then show ?thesis
    by (simp add: streak_ok_def)
qed

lemma daily_play_numWins_le_numGames:
  assumes "requestedIndex \<noteq> - 1" and "list_all daily_play acts"
  shows "numWins (userStats (run (Reconcile requestedIndex False # acts) initial_state))
     \<le> numGames (userStats (run (Reconcile requestedIndex False # acts) initial_state))"
proof -
  from assms have "counted (run acts (reconcile requestedIndex False initial_state))"
    by (simp add: counted_run counted_first)
  then show ?thesis
    by (auto simp: counted_def split: if_splits)
qed

text \<open>
  C6. The claim: for every statistics value reachable from the default statistics by
  any sequence of reconciliations and guesses, in either mode, \<open>numWins \<le> numGames\<close> and
  \<open>currentStreak \<le> maxStreak\<close>. The program breaks the first inequality. Game 5 is won
  in daily mode and then opened in archive mode, which clears the stored session that
  both modes share; opened again in daily mode on the same day, the session carries game
  number 5, so no new game is counted, yet it is open again, and a second win of the same
  daily game is recorded: two wins stand against one game played.
\<close>

theorem replayed_daily_game_two_wins_one_game:
  "numWins (userStats (run replayed_daily_game initial_state)) = 2 \<and>
   numGames (userStats (run replayed_daily_game initial_state)) = 1 \<and>
   \<not> numWins (userStats (run replayed_daily_game initial_state))
       \<le> numGames (userStats (run replayed_daily_game initial_state))"
  by code_simp

subsection \<open>The rounding error of the percentage\<close>

lemma relative_step:
  fixes x y c lo :: rat
  assumes "x * lo \<le> y" and "c \<le> x" and "0 \<le> lo"
  shows "c * lo \<le> y"
  using assms by (meson mult_right_mono order_trans)

lemma relative_step':
  fixes x y c hi :: rat
  assumes "y \<le> x * hi" and "x \<le> c" and "0 \<le> hi"
  shows "y \<le> c * hi"
  using assms by (meson mult_right_mono order_trans)


lemma relative_chain:
  fixes A B a b q r lo hi :: rat
  assumes "0 < A" and "0 < B" and "0 < lo" and "0 < hi"
    and a: "A * lo \<le> a" "a \<le> A * hi"
    and b: "B * lo \<le> b" "b \<le> B * hi"
    and q: "a / b * lo \<le> q" "q \<le> a / b * hi"
    and r: "q * 100 * lo \<le> r" "r \<le> q * 100 * hi"
  shows "A / B * 100 * (lo * lo * lo / hi) \<le> r" and "r \<le> A / B * 100 * (hi * hi * hi / lo)"
proof -
  have Alo: "0 < A * lo" and Blo: "0 < B * lo" and Ahi: "0 < A * hi" and Bhi: "0 < B * hi"
    using assms(1-4) by simp_all
  have apos: "0 < a" using Alo a(1) by (rule less_le_trans)
  have bpos: "0 < b" using Blo b(1) by (rule less_le_trans)
  have ab_hi: "a / b \<le> (A * hi) / (B * lo)"
    by (rule frac_le) (use Ahi a(2) Blo b(1) in simp_all)
  have ab_lo: "(A * lo) / (B * hi) \<le> a / b"
    by (rule frac_le) (use apos a(1) bpos b(2) in simp_all)
  have q_hi: "q \<le> (A * hi) / (B * lo) * hi"
    by (rule relative_step' [OF q(2) ab_hi]) (use \<open>0 < hi\<close> in simp)
  have q_lo: "(A * lo) / (B * hi) * lo \<le> q"
    by (rule relative_step [OF q(1) ab_lo]) (use \<open>0 < lo\<close> in simp)
  have q100_hi: "q * 100 \<le> (A * hi) / (B * lo) * hi * 100"
    using q_hi by (rule mult_right_mono) simp
  have q100_lo: "(A * lo) / (B * hi) * lo * 100 \<le> q * 100"
    using q_lo by (rule mult_right_mono) simp
  have r_hi: "r \<le> (A * hi) / (B * lo) * hi * 100 * hi"
    by (rule relative_step' [OF r(2) q100_hi]) (use \<open>0 < hi\<close> in simp)
  have r_lo: "(A * lo) / (B * hi) * lo * 100 * lo \<le> r"
    by (rule relative_step [OF r(1) q100_lo]) (use \<open>0 < lo\<close> in simp)
  have eq_hi: "(A * hi) / (B * lo) * hi * 100 * hi = A / B * 100 * (hi * hi * hi / lo)"
    by simp
  show "r \<le> A / B * 100 * (hi * hi * hi / lo)" using r_hi unfolding eq_hi .
  have eq_lo: "(A * lo) / (B * hi) * lo * 100 * lo = A / B * 100 * (lo * lo * lo / hi)"
    by simp
  show "A / B * 100 * (lo * lo * lo / hi) \<le> r" using r_lo unfolding eq_lo .
qed

lemma rounding_constants:
  "(1 + 1 / 2 ^ 53) * (1 + 1 / 2 ^ 53) * (1 + 1 / 2 ^ 53) / (1 - 1 / 2 ^ 53) \<le> (1 + 5 / 2 ^ 53 :: rat)"
  "(1 - 5 / 2 ^ 53 :: rat) \<le> (1 - 1 / 2 ^ 53) * (1 - 1 / 2 ^ 53) * (1 - 1 / 2 ^ 53) / (1 + 1 / 2 ^ 53)"
  by simp_all

text \<open>The four roundings of \<^verbatim>\<open>calculatePercentDifference\<close>, for a guess and a target in
  the validator's price range: the result differs from the exact percentage \<open>P\<close> by at
  most \<open>(\<bar>P\<bar> + 100) / 10 ^ 15\<close>.\<close>

lemma final_bound:
  fixes p r S :: rat
  assumes r: "S * (1 - 5 / 2 ^ 53) \<le> r" "r \<le> S * (1 + 5 / 2 ^ 53)"
    and S: "1 / 10 ^ 4 \<le> S"
    and p: "\<bar>p - (r - 100)\<bar> \<le> \<bar>r - 100\<bar> / 2 ^ 53 + 1 / 2 ^ 1075"
  shows "\<bar>p - (S - 100)\<bar> \<le> (\<bar>S - 100\<bar> + 100) / 10 ^ 15"
proof -
  define M where "M = \<bar>S - 100\<bar> + 100"
  define u :: rat where "u = 1 / 2 ^ 53"
  have SM: "S \<le> M" unfolding M_def by linarith
  have Spos: "0 < S" using S by (rule less_le_trans [rotated]) simp
  have e: "S * (1 - 5 / 2 ^ 53) = S - 5 * u * S" "S * (1 + 5 / 2 ^ 53) = S + 5 * u * S"
    by (simp_all add: u_def algebra_simps)
  from r have "S - 5 * u * S \<le> r" "r \<le> S + 5 * u * S" unfolding e .
  then have rS: "\<bar>r - S\<bar> \<le> 5 * u * S" by linarith
  have uS: "5 * u * S \<le> 5 * u * M" using SM by (simp add: u_def)
  have Z: "\<bar>r - 100\<bar> \<le> \<bar>S - 100\<bar> + \<bar>r - S\<bar>" by linarith
  then have Z': "\<bar>r - 100\<bar> \<le> M + 5 * u * M" using rS uS unfolding M_def by linarith
  have "\<bar>r - 100\<bar> / 2 ^ 53 = \<bar>r - 100\<bar> * u" by (simp add: u_def)
  also have "\<dots> \<le> (M + 5 * u * M) * u" using Z' by (rule mult_right_mono) (simp add: u_def)
  finally have e1: "\<bar>r - 100\<bar> / 2 ^ 53 \<le> (M + 5 * u * M) * u" .
  have "\<bar>p - (S - 100)\<bar> \<le> \<bar>p - (r - 100)\<bar> + \<bar>r - S\<bar>" by linarith
  also have "\<dots> \<le> (M + 5 * u * M) * u + 1 / 2 ^ 1075 + 5 * u * M"
    using p e1 rS uS by linarith
  also have "\<dots> = M * (6 * u + 5 * u * u) + 1 / 2 ^ 1075" by (simp add: algebra_simps)
  also have "\<dots> \<le> M / 10 ^ 15"
  proof -
    have M4: "1 / 10 ^ 4 \<le> M" using S SM by linarith
    have c: "(6 * u + 5 * u * u) + (1 / 2 ^ 1075) * 10 ^ 4 \<le> 1 / 10 ^ 15"
      by (simp add: u_def)
    have "1 / 2 ^ 1075 = (1 / 2 ^ 1075) * 10 ^ 4 * (1 / 10 ^ 4 :: rat)" by simp
    also have "\<dots> \<le> (1 / 2 ^ 1075) * 10 ^ 4 * M"
      using M4 by (rule mult_left_mono) simp
    finally have "M * (6 * u + 5 * u * u) + 1 / 2 ^ 1075
        \<le> M * (6 * u + 5 * u * u) + (1 / 2 ^ 1075) * 10 ^ 4 * M" by simp
    also have "\<dots> = M * ((6 * u + 5 * u * u) + (1 / 2 ^ 1075) * 10 ^ 4)"
      by (simp add: algebra_simps)
    also have "\<dots> \<le> M * (1 / 10 ^ 15)"
      using c by (rule mult_left_mono) (use M4 in simp)
    finally show ?thesis by simp
  qed
  finally show ?thesis unfolding M_def .
qed


lemma in_normal_range:
  fixes x :: rat
  assumes "1 / 10 ^ 7 \<le> x" and "x \<le> 10 ^ 10"
  shows "1 / 2 ^ 1022 \<le> x" and "x < 2 ^ 1023"
proof -
  have "(1::rat) / 2 ^ 1022 \<le> 1 / 10 ^ 7" by simp
  then show "1 / 2 ^ 1022 \<le> x" using assms(1) by (rule order_trans)
  have "(10::rat) ^ 10 < 2 ^ 1023" by simp
  with assms(2) show "x < 2 ^ 1023" by (rule le_less_trans)
qed

lemma calculatePercentDifference_error:
  assumes g: "1 / 100 \<le> g" "g \<le> 10000" and t: "1 / 100 \<le> t" "t \<le> 10000"
  shows "\<exists>p. calculatePercentDifference g t = Num p \<and>
             \<bar>p - (g - t) / t * 100\<bar> \<le> (\<bar>(g - t) / t * 100\<bar> + 100) / 10 ^ 15"
proof -
  define lo :: rat where "lo = 1 - 1 / 2 ^ 53"
  define hi :: rat where "hi = 1 + 1 / 2 ^ 53"
  have lo: "0 < lo" "1 / 2 \<le> lo" "lo \<le> 1" and hi: "0 < hi" "1 \<le> hi" "hi \<le> 2"
    by (simp_all add: lo_def hi_def)
  have tpos: "0 < t" and gpos: "0 < g" using g t by linarith+
  define A where "A = g * 100"
  define B where "B = t * 100"
  have A: "1 \<le> A" "A \<le> 10 ^ 6" and B: "1 \<le> B" "B \<le> 10 ^ 6"
    using g t by (simp_all add: A_def B_def)
  have "1 / 10 ^ 7 \<le> A" "A \<le> 10 ^ 10" using A by simp_all
  from round_double_relative [OF in_normal_range [OF this]]
  obtain a where a: "round_double A = Num a" "A * lo \<le> a" "a \<le> A * hi"
    unfolding lo_def hi_def by blast
  have "1 / 10 ^ 7 \<le> B" "B \<le> 10 ^ 10" using B by simp_all
  from round_double_relative [OF in_normal_range [OF this]]
  obtain b where b: "round_double B = Num b" "B * lo \<le> b" "b \<le> B * hi"
    unfolding lo_def hi_def by blast
  have a_rng: "1 / 2 \<le> a" "a \<le> 2 * 10 ^ 6"
  proof -
    have "1 * (1 / 2) \<le> A * lo" using A(1) lo by (intro mult_mono) simp_all
    with a(2) show "1 / 2 \<le> a" by simp
    have "A * hi \<le> 10 ^ 6 * 2" using A hi by (intro mult_mono) simp_all
    with a(3) show "a \<le> 2 * 10 ^ 6" by simp
  qed
  have b_rng: "1 / 2 \<le> b" "b \<le> 2 * 10 ^ 6"
  proof -
    have "1 * (1 / 2) \<le> B * lo" using B(1) lo by (intro mult_mono) simp_all
    with b(2) show "1 / 2 \<le> b" by simp
    have "B * hi \<le> 10 ^ 6 * 2" using B hi by (intro mult_mono) simp_all
    with b(3) show "b \<le> 2 * 10 ^ 6" by simp
  qed
  have bne: "b \<noteq> 0" using b_rng by linarith
  define X where "X = a / b"
  have X: "1 / (4 * 10 ^ 6) \<le> X" "X \<le> 4 * 10 ^ 6"
  proof -
    have "(1 / 2) / (2 * 10 ^ 6) \<le> a / b"
      by (rule frac_le) (use a_rng b_rng in simp_all)
    then show "1 / (4 * 10 ^ 6) \<le> X" by (simp add: X_def)
    have "a / b \<le> (2 * 10 ^ 6) / (1 / 2)"
      by (rule frac_le) (use a_rng b_rng in simp_all)
    then show "X \<le> 4 * 10 ^ 6" by (simp add: X_def)
  qed
  have "1 / 10 ^ 7 \<le> X" "X \<le> 10 ^ 10" using X by simp_all
  from round_double_relative [OF in_normal_range [OF this]]
  obtain q where q: "round_double X = Num q" "X * lo \<le> q" "q \<le> X * hi"
    unfolding lo_def hi_def by blast
  have q_rng: "1 / (8 * 10 ^ 6) \<le> q" "q \<le> 8 * 10 ^ 6"
  proof -
    have "1 / (4 * 10 ^ 6) * (1 / 2) \<le> X * lo" using X(1) lo by (intro mult_mono) simp_all
    with q(2) show "1 / (8 * 10 ^ 6) \<le> q" by simp
    have "X * hi \<le> 4 * 10 ^ 6 * 2" using X hi by (intro mult_mono) simp_all
    with q(3) show "q \<le> 8 * 10 ^ 6" by simp
  qed
  define Y where "Y = q * 100"
  have Y: "1 / 10 ^ 6 \<le> Y" "Y \<le> 10 ^ 9" using q_rng by (simp_all add: Y_def)
  have "1 / 10 ^ 7 \<le> Y" "Y \<le> 10 ^ 10" using Y by simp_all
  from round_double_relative [OF in_normal_range [OF this]]
  obtain r where r: "round_double Y = Num r" "Y * lo \<le> r" "r \<le> Y * hi"
    unfolding lo_def hi_def by blast
  have r_rng: "0 \<le> r" "r \<le> 2 * 10 ^ 9"
  proof -
    have "0 \<le> Y * lo" using Y(1) lo(1) by simp
    with r(2) show "0 \<le> r" by simp
    have "Y * hi \<le> 10 ^ 9 * 2" using Y hi by (intro mult_mono) simp_all
    with r(3) show "r \<le> 2 * 10 ^ 9" by simp
  qed
  have "\<bar>r - 100\<bar> \<le> 10 ^ 10" using r_rng by (simp add: abs_le_iff)
  moreover have "(10::rat) ^ 10 < 2 ^ 1023" by simp
  ultimately have "\<bar>r - 100\<bar> < 2 ^ 1023" by (rule le_less_trans)
  from round_double_finite [OF this]
  obtain p where p: "round_double (r - 100) = Num p"
    "\<bar>p - (r - 100)\<bar> \<le> \<bar>r - 100\<bar> / 2 ^ 53 + 1 / 2 ^ 1075" by blast
  have Apos: "0 < A" and Bpos: "0 < B" using A B by linarith+
  define S where "S = A / B * 100"
  have chain: "S * (lo * lo * lo / hi) \<le> r" "r \<le> S * (hi * hi * hi / lo)"
    unfolding S_def
    using relative_chain [OF Apos Bpos lo(1) hi(1) a(2,3) b(2,3) q(2,3) [unfolded X_def]
        r(2,3) [unfolded Y_def]]
    by simp_all
  have Spos: "0 \<le> S" using Apos Bpos by (simp add: S_def)
  have "S * (1 - 5 / 2 ^ 53) \<le> S * (lo * lo * lo / hi)"
    using rounding_constants(2) Spos unfolding lo_def hi_def by (rule mult_left_mono)
  with chain(1) have r1: "S * (1 - 5 / 2 ^ 53) \<le> r" by linarith
  have "S * (hi * hi * hi / lo) \<le> S * (1 + 5 / 2 ^ 53)"
    using rounding_constants(1) Spos unfolding lo_def hi_def by (rule mult_left_mono)
  with chain(2) have r2: "r \<le> S * (1 + 5 / 2 ^ 53)" by linarith
  have S_eq: "S = g / t * 100" using tpos by (simp add: S_def A_def B_def)
  have "(1 / 100) / 10000 \<le> g / t"
    by (rule frac_le) (use g t tpos in simp_all)
  then have "(1 / 100) / 10000 * 100 \<le> g / t * 100" by (rule mult_right_mono) simp
  then have S4: "1 / 10 ^ 4 \<le> S" unfolding S_eq by simp
  have P: "(g - t) / t * 100 = S - 100" using tpos by (simp add: S_eq field_simps)
  have cpd: "calculatePercentDifference g t = Num p"
    using tpos bne a(1) b(1) q(1) r(1) p(1)
    by (simp add: calculatePercentDifference_def A_def [symmetric] B_def [symmetric]
         X_def [symmetric] Y_def [symmetric])
  from final_bound [OF r1 r2 S4 p(2)] cpd show ?thesis
    unfolding P by blast
qed

subsection \<open>Evaluating a guess\<close>

lemma example_doubles:
  "round_double (1 / 100) = Num MIN_PRICE"
  "round_double (57 / 100) = Num double_0_57"
  "round_double (60 / 100) = Num double_0_60"
  "round_double (63 / 100) = Num double_0_63"
  "validatePriceInput ''0.57'' = Valid double_0_57"
  "validatePriceInput ''0.63'' = Valid double_0_63"
  by code_simp+

lemma closeness_thresholds:
  fixes p P :: rat
  assumes "\<bar>p - P\<bar> \<le> (\<bar>P\<bar> + 100) / 10 ^ 15"
  shows "\<bar>P\<bar> \<le> 5 - 1 / 10 ^ 12 \<Longrightarrow> \<bar>p\<bar> \<le> 5"
    and "5 + 1 / 10 ^ 12 \<le> \<bar>P\<bar> \<Longrightarrow> \<not> \<bar>p\<bar> \<le> 5"
    and "\<bar>P\<bar> \<le> 25 - 1 / 10 ^ 12 \<Longrightarrow> \<bar>p\<bar> \<le> 25"
    and "25 + 1 / 10 ^ 12 \<le> \<bar>P\<bar> \<Longrightarrow> \<not> \<bar>p\<bar> \<le> 25"
    and "P \<le> - (1 / 10 ^ 12) \<Longrightarrow> p < 0"
    and "1 / 10 ^ 12 \<le> P \<Longrightarrow> \<not> p < 0"
proof -
  define E where "E = (\<bar>P\<bar> + 100) / 10 ^ 15"
  have E: "E * 1000000000000000 = \<bar>P\<bar> + 100" by (simp add: E_def)
  have b: "p - P \<le> E" "P - p \<le> E" using assms unfolding E_def [symmetric] by linarith+
  define d :: rat where "d = 1 / 10 ^ 12"
  have d: "d * 1000000000000 = 1" by (simp add: d_def)
  show "\<bar>P\<bar> \<le> 5 - 1 / 10 ^ 12 \<Longrightarrow> \<bar>p\<bar> \<le> 5"
    unfolding d_def [symmetric] using b E d by linarith
  show "5 + 1 / 10 ^ 12 \<le> \<bar>P\<bar> \<Longrightarrow> \<not> \<bar>p\<bar> \<le> 5"
    unfolding d_def [symmetric] using b E d by linarith
  show "\<bar>P\<bar> \<le> 25 - 1 / 10 ^ 12 \<Longrightarrow> \<bar>p\<bar> \<le> 25"
    unfolding d_def [symmetric] using b E d by linarith
  show "25 + 1 / 10 ^ 12 \<le> \<bar>P\<bar> \<Longrightarrow> \<not> \<bar>p\<bar> \<le> 25"
    unfolding d_def [symmetric] using b E d by linarith
  show "P \<le> - (1 / 10 ^ 12) \<Longrightarrow> p < 0"
    unfolding d_def [symmetric] using b E d by linarith
  show "1 / 10 ^ 12 \<le> P \<Longrightarrow> \<not> p < 0"
    unfolding d_def [symmetric] using b E d by linarith
qed

text \<open>
  C8 (as amended). For every guess and target price, \<open>createGuessObject\<close> works with the
  value of \<^verbatim>\<open>((guess * 100) / (target * 100)) * 100 - 100\<close> in double arithmetic, with 0
  for a guess of 0 against a target of 0 and \<^verbatim>\<open>Infinity\<close> for any other guess against a
  target of 0; the function is total. For a guess and a target between 0.01 and 10000
  that value differs from the exact percentage \<open>P = (guess - target) / target * 100\<close> by
  at most \<open>(\<bar>P\<bar> + 100) / 10 ^ 15\<close>. The closeness is \<open>WIN\<close> when the absolute computed value
  is at most 5, else \<open>NEAR\<close> when it is at most 25, else \<open>FAR\<close>; the direction is \<open>CHECK\<close>
  on a win, \<open>UP\<close> when the computed value is negative and \<open>DOWN\<close> otherwise. So in that
  price range the closeness and the direction are those of the exact percentage whenever
  \<open>\<bar>P\<bar>\<close> is at least \<open>1 / 10 ^ 12\<close> away from both thresholds. A guess of 95 against 100 is a
  win with direction \<open>CHECK\<close>, a guess of 70 against 100 is \<open>FAR\<close> with direction \<open>UP\<close>.
\<close>

theorem createGuessObject_double_classification:
  "calculatePercentDifference g 0 = (if g = 0 then Num 0 else Infinity) \<and>
   (1 / 100 \<le> g \<and> g \<le> 10000 \<and> 1 / 100 \<le> productPrice s \<and> productPrice s \<le> 10000 \<longrightarrow>
      (\<exists>p. calculatePercentDifference g (productPrice s) = Num p \<and>
           \<bar>p - (g - productPrice s) / productPrice s * 100\<bar>
             \<le> (\<bar>(g - productPrice s) / productPrice s * 100\<bar> + 100) / 10 ^ 15) \<and>
      (\<bar>(g - productPrice s) / productPrice s * 100\<bar> \<le> 5 - 1 / 10 ^ 12 \<longrightarrow>
         closeness (createGuessObject g s) = WIN) \<and>
      (5 + 1 / 10 ^ 12 \<le> \<bar>(g - productPrice s) / productPrice s * 100\<bar> \<and>
       \<bar>(g - productPrice s) / productPrice s * 100\<bar> \<le> 25 - 1 / 10 ^ 12 \<longrightarrow>
         closeness (createGuessObject g s) = NEAR) \<and>
      (25 + 1 / 10 ^ 12 \<le> \<bar>(g - productPrice s) / productPrice s * 100\<bar> \<longrightarrow>
         closeness (createGuessObject g s) = FAR) \<and>
      (5 + 1 / 10 ^ 12 \<le> \<bar>(g - productPrice s) / productPrice s * 100\<bar> \<longrightarrow>
         direction (createGuessObject g s) = (if g < productPrice s then UP else DOWN))) \<and>
   guess (createGuessObject g s) = g \<and>
   closeness (createGuessObject g s) =
     (if js_le (js_abs (calculatePercentDifference g (productPrice s))) 5 then WIN
      else if js_le (js_abs (calculatePercentDifference g (productPrice s))) 25 then NEAR
      else FAR) \<and>
   direction (createGuessObject g s) =
     (if closeness (createGuessObject g s) = WIN then CHECK
      else if js_lt (calculatePercentDifference g (productPrice s)) 0 then UP
      else DOWN) \<and>
   createGuessObject g (s\<lparr>productPrice := 0\<rparr>) =
     \<lparr>guess = g, closeness = (if g = 0 then WIN else FAR),
      direction = (if g = 0 then CHECK else DOWN)\<rparr> \<and>
   createGuessObject 95 (s\<lparr>productPrice := 100\<rparr>) =
     \<lparr>guess = 95, closeness = WIN, direction = CHECK\<rparr> \<and>
   createGuessObject 70 (s\<lparr>productPrice := 100\<rparr>) =
     \<lparr>guess = 70, closeness = FAR, direction = UP\<rparr>"
proof -
  let ?t = "productPrice s"
  let ?P = "(g - ?t) / ?t * 100"
  have zero: "calculatePercentDifference g 0 = (if g = 0 then Num 0 else Infinity)"
    by (simp add: calculatePercentDifference_def)
  have cl: "closeness (createGuessObject g s) =
     (if js_le (js_abs (calculatePercentDifference g ?t)) 5 then WIN
      else if js_le (js_abs (calculatePercentDifference g ?t)) 25 then NEAR
      else FAR)"
    by (simp add: createGuessObject_def Let_def WIN_THRESHOLD_PERCENT_def
          NEAR_THRESHOLD_PERCENT_def)
  have dir: "direction (createGuessObject g s) =
     (if closeness (createGuessObject g s) = WIN then CHECK
      else if js_lt (calculatePercentDifference g ?t) 0 then UP
      else DOWN)"
    by (simp add: createGuessObject_def Let_def)
  have gs: "guess (createGuessObject g s) = g"
    by (simp add: createGuessObject_def Let_def)
  have z: "createGuessObject g (s\<lparr>productPrice := 0\<rparr>) =
     \<lparr>guess = g, closeness = (if g = 0 then WIN else FAR),
      direction = (if g = 0 then CHECK else DOWN)\<rparr>"
    by (simp add: createGuessObject_def Let_def calculatePercentDifference_def
          WIN_THRESHOLD_PERCENT_def NEAR_THRESHOLD_PERCENT_def)
  have c95: "calculatePercentDifference 95 100 = Num (- 5)"
    and c70: "calculatePercentDifference 70 100 = Num (- 30)"
    by code_simp+
  have ex: "createGuessObject 95 (s\<lparr>productPrice := 100\<rparr>) =
       \<lparr>guess = 95, closeness = WIN, direction = CHECK\<rparr>"
    "createGuessObject 70 (s\<lparr>productPrice := 100\<rparr>) =
       \<lparr>guess = 70, closeness = FAR, direction = UP\<rparr>"
    by (simp_all add: createGuessObject_def Let_def c95 c70
          WIN_THRESHOLD_PERCENT_def NEAR_THRESHOLD_PERCENT_def)
  have rng: "(\<exists>p. calculatePercentDifference g ?t = Num p \<and>
           \<bar>p - ?P\<bar> \<le> (\<bar>?P\<bar> + 100) / 10 ^ 15) \<and>
      (\<bar>?P\<bar> \<le> 5 - 1 / 10 ^ 12 \<longrightarrow> closeness (createGuessObject g s) = WIN) \<and>
      (5 + 1 / 10 ^ 12 \<le> \<bar>?P\<bar> \<and> \<bar>?P\<bar> \<le> 25 - 1 / 10 ^ 12 \<longrightarrow>
         closeness (createGuessObject g s) = NEAR) \<and>
      (25 + 1 / 10 ^ 12 \<le> \<bar>?P\<bar> \<longrightarrow> closeness (createGuessObject g s) = FAR) \<and>
      (5 + 1 / 10 ^ 12 \<le> \<bar>?P\<bar> \<longrightarrow>
         direction (createGuessObject g s) = (if g < ?t then UP else DOWN))"
    if h: "1 / 100 \<le> g \<and> g \<le> 10000 \<and> 1 / 100 \<le> ?t \<and> ?t \<le> 10000"
  proof -
    from h calculatePercentDifference_error [of g ?t]
    obtain p where p: "calculatePercentDifference g ?t = Num p"
      "\<bar>p - ?P\<bar> \<le> (\<bar>?P\<bar> + 100) / 10 ^ 15" by blast
    note th = closeness_thresholds [OF p(2)]
    have tpos: "0 < ?t" using h by linarith
    have sgn: "g < ?t \<longleftrightarrow> ?P < 0" using tpos by (simp add: field_simps)
    have w: "\<bar>?P\<bar> \<le> 5 - 1 / 10 ^ 12 \<Longrightarrow> closeness (createGuessObject g s) = WIN"
      using th(1) by (simp add: cl p(1))
    have nw: "\<not> \<bar>p\<bar> \<le> 5" if "5 + 1 / 10 ^ 12 \<le> \<bar>?P\<bar>"
      using th(2) that by blast
    have n: "5 + 1 / 10 ^ 12 \<le> \<bar>?P\<bar> \<Longrightarrow> \<bar>?P\<bar> \<le> 25 - 1 / 10 ^ 12 \<Longrightarrow>
        closeness (createGuessObject g s) = NEAR"
      using th(3) nw by (simp add: cl p(1))
    have f: "25 + 1 / 10 ^ 12 \<le> \<bar>?P\<bar> \<Longrightarrow> closeness (createGuessObject g s) = FAR"
    proof -
      assume a: "25 + 1 / 10 ^ 12 \<le> \<bar>?P\<bar>"
      then have "5 + 1 / 10 ^ 12 \<le> \<bar>?P\<bar>" by linarith
      with a th(4) nw show ?thesis by (simp add: cl p(1))
    qed
    have d: "direction (createGuessObject g s) = (if g < ?t then UP else DOWN)"
      if a: "5 + 1 / 10 ^ 12 \<le> \<bar>?P\<bar>"
    proof -
      have nwin: "closeness (createGuessObject g s) \<noteq> WIN"
        using nw [OF a] by (simp add: cl p(1))
      show ?thesis
      proof (cases "?P < 0")
        case True
        with a have "?P \<le> - (1 / 10 ^ 12)" by linarith
        then have "p < 0" by (rule th(5))
        with True nwin show ?thesis by (simp add: dir p(1) sgn)
      next
        case False
        with a have "1 / 10 ^ 12 \<le> ?P" by linarith
        then have "\<not> p < 0" by (rule th(6))
        with False nwin show ?thesis by (simp add: dir p(1) sgn)
      qed
    qed
    from p w n f d show ?thesis by blast
  qed
  from zero rng gs cl dir z ex show ?thesis by blast
qed

text \<open>Witness: against a price of 100, a guess of 96 wins, a guess of 90 is near and too
  low, a guess of 130 is far and too high.\<close>

theorem createGuessObject_double_classification_witness:
  "(1 :: rat) / 100 \<le> 96 \<and> (96 :: rat) \<le> 10000 \<and>
   1 / 100 \<le> productPrice priced_100 \<and> productPrice priced_100 \<le> 10000 \<and>
   \<bar>(96 - productPrice priced_100) / productPrice priced_100 * 100\<bar> \<le> 5 - 1 / 10 ^ 12 \<and>
   closeness (createGuessObject 96 priced_100) = WIN \<and>
   5 + 1 / 10 ^ 12 \<le> \<bar>(90 - productPrice priced_100) / productPrice priced_100 * 100\<bar> \<and>
   \<bar>(90 - productPrice priced_100) / productPrice priced_100 * 100\<bar> \<le> 25 - 1 / 10 ^ 12 \<and>
   closeness (createGuessObject 90 priced_100) = NEAR \<and>
   direction (createGuessObject 90 priced_100) = UP \<and>
   25 + 1 / 10 ^ 12 \<le> \<bar>(130 - productPrice priced_100) / productPrice priced_100 * 100\<bar> \<and>
   closeness (createGuessObject 130 priced_100) = FAR \<and>
   direction (createGuessObject 130 priced_100) = DOWN"
proof -
  have pp: "productPrice priced_100 = 100" by (simp add: priced_100_def)
  have r96: "1 / 100 \<le> (96::rat) \<and> (96::rat) \<le> 10000 \<and>
      1 / 100 \<le> productPrice priced_100 \<and> productPrice priced_100 \<le> 10000"
    and r90: "1 / 100 \<le> (90::rat) \<and> (90::rat) \<le> 10000 \<and>
      1 / 100 \<le> productPrice priced_100 \<and> productPrice priced_100 \<le> 10000"
    and r130: "1 / 100 \<le> (130::rat) \<and> (130::rat) \<le> 10000 \<and>
      1 / 100 \<le> productPrice priced_100 \<and> productPrice priced_100 \<le> 10000"
    by (simp_all add: pp)
  have h96: "\<bar>(96 - productPrice priced_100) / productPrice priced_100 * 100\<bar> \<le> 5 - 1 / 10 ^ 12"
    and h90: "5 + 1 / 10 ^ 12 \<le> \<bar>(90 - productPrice priced_100) / productPrice priced_100 * 100\<bar>"
      "\<bar>(90 - productPrice priced_100) / productPrice priced_100 * 100\<bar> \<le> 25 - 1 / 10 ^ 12"
    and h130: "25 + 1 / 10 ^ 12 \<le> \<bar>(130 - productPrice priced_100) / productPrice priced_100 * 100\<bar>"
      "5 + 1 / 10 ^ 12 \<le> \<bar>(130 - productPrice priced_100) / productPrice priced_100 * 100\<bar>"
    by (simp_all add: pp)
  have lt: "(90::rat) < productPrice priced_100" "\<not> (130::rat) < productPrice priced_100"
    by (simp_all add: pp)
  from createGuessObject_double_classification [of 96 priced_100] r96 h96
  have w: "closeness (createGuessObject 96 priced_100) = WIN" by blast
  from createGuessObject_double_classification [of 90 priced_100] r90 h90
  have n: "closeness (createGuessObject 90 priced_100) = NEAR"
    "direction (createGuessObject 90 priced_100) = (if 90 < productPrice priced_100 then UP else DOWN)"
    by blast+
  from createGuessObject_double_classification [of 130 priced_100] r130 h130
  have f: "closeness (createGuessObject 130 priced_100) = FAR"
    "direction (createGuessObject 130 priced_100) = (if 130 < productPrice priced_100 then UP else DOWN)"
    by blast+
  from n(2) lt(1) have n2: "direction (createGuessObject 90 priced_100) = UP" by simp
  from f(2) lt(2) have f2: "direction (createGuessObject 130 priced_100) = DOWN" by simp
  from r96 h96 w h90 n(1) n2 h130(1) f(1) f2 show ?thesis by blast
qed

text \<open>Counterexample to C8 as stated. For 110 against 100 the computed percentage is
  \<open>10 + 1 / 2 ^ 46\<close>, not 10. The input \<^verbatim>\<open>0.63\<close> against a stored price of 0.60 is a win,
  although the exact percentage of the two doubles is above 5; and the input \<^verbatim>\<open>0.57\<close>
  against the same price is \<open>NEAR\<close>, although the decimal numbers 0.57 and 0.60 are exactly
  5 percent apart.\<close>

theorem percent_double_rounding_counterexample:
  "calculatePercentDifference 110 100 = Num (10 + 1 / 2 ^ 46) \<and>
   percentAway 110 100 = Num 10 \<and>
   calculatePercentDifference 110 100 \<noteq> percentAway 110 100 \<and>
   validatePriceInput ''0.63'' = Valid double_0_63 \<and>
   productPrice priced_0_60 = double_0_60 \<and>
   closeness (createGuessObject double_0_63 priced_0_60) = WIN \<and>
   \<not> js_le (js_abs (percentAway double_0_63 double_0_60)) 5 \<and>
   validatePriceInput ''0.57'' = Valid double_0_57 \<and>
   createGuessObject double_0_57 priced_0_60 =
     \<lparr>guess = double_0_57, closeness = NEAR, direction = UP\<rparr> \<and>
   js_le (js_abs (percentAway (57 / 100) (60 / 100))) 5"
proof -
  have c0: "calculatePercentDifference 110 100 = Num (703687441776641 / 70368744177664)"
    by code_simp
  have c: "calculatePercentDifference 110 100 = Num (10 + 1 / 2 ^ 46)"
    unfolding c0 by simp
  have p: "percentAway 110 100 = Num 10" by (simp add: percentAway_def)
  have ne: "calculatePercentDifference 110 100 \<noteq> percentAway 110 100"
    unfolding c0 p by simp
  have a: "closeness (createGuessObject double_0_63 priced_0_60) = WIN" by code_simp
  have b: "createGuessObject double_0_57 priced_0_60 =
     \<lparr>guess = double_0_57, closeness = NEAR, direction = UP\<rparr>" by code_simp
  have d: "\<not> js_le (js_abs (percentAway double_0_63 double_0_60)) 5"
    by (simp add: percentAway_def double_0_63_def double_0_60_def)
  have f: "js_le (js_abs (percentAway (57 / 100) (60 / 100))) 5"
    by (simp add: percentAway_def)
  have pp: "productPrice priced_0_60 = double_0_60" by (simp add: priced_0_60_def)
  from c p ne example_doubles(6) pp a d example_doubles(5) b f show ?thesis by blast
qed

subsection \<open>Validating an archive game number\<close>

lemma digit_not_space:
  "isDigit c \<Longrightarrow>
   \<not> isWhiteSpace c \<and> c \<noteq> CHR ''+'' \<and> c \<noteq> CHR ''-'' \<and> c \<noteq> CHR ''.''"
  by (auto simp: isDigit_def isWhiteSpace_def)

lemma parseInt_no_digit:
  assumes "list_all (\<lambda>c. \<not> isDigit c) str"
  shows "parseInt str = NaN"
proof -
  define s0 where "s0 = dropWhile isWhiteSpace str"
  define s1 where
    "s1 = (if s0 \<noteq> [] \<and> (hd s0 = CHR ''+'' \<or> hd s0 = CHR ''-'') then tl s0 else s0)"
  have "set s0 \<subseteq> set str"
    unfolding s0_def by (auto dest: set_dropWhileD)
  moreover have "set s1 \<subseteq> set s0"
    unfolding s1_def by (auto dest: list.set_sel(2))
  ultimately have "\<forall>c \<in> set s1. \<not> isDigit c"
    using assms by (auto simp: list_all_iff)
  then have "takeWhile isDigit s1 = []"
    by (cases s1) auto
  then show ?thesis
    unfolding parseInt_def Let_def s1_def s0_def by simp
qed

lemma parseInt_decimal:
  assumes "ip \<noteq> []" and "list_all isDigit ip"
  shows "parseInt (ip @ CHR ''.'' # fr) = Num (of_int (digitsValue ip))"
proof -
  obtain d ds where ip: "ip = d # ds"
    using assms(1) by (cases ip) auto
  with assms(2) have d: "isDigit d" by simp
  have tw: "takeWhile isDigit (ip @ CHR ''.'' # fr) = ip"
  proof -
    have "takeWhile isDigit (ip @ CHR ''.'' # fr) = ip @ takeWhile isDigit (CHR ''.'' # fr)"
      using assms(2) by (intro takeWhile_append2) (simp add: list_all_iff)
    moreover have "\<not> isDigit CHR ''.''"
      by (simp add: isDigit_def)
    ultimately show ?thesis by simp
  qed
  have "dropWhile isWhiteSpace (ip @ CHR ''.'' # fr) = ip @ CHR ''.'' # fr"
    using digit_not_space [OF d] by (simp add: ip)
  then show ?thesis
    using digit_not_space [OF d] tw assms(1) by (simp add: parseInt_def Let_def ip)
qed

text \<open>
  C9 (as amended). \<open>validateGameNumber\<close> takes a number as it is and turns a string into a
  number with \<open>parseInt\<close>, radix 10: a string without any digit becomes \<open>NaN\<close>, while a
  decimal string such as \<open>2.5\<close> becomes its integer part. The validation succeeds, with
  that number as its value, exactly when the number \<open>n\<close> satisfies
  \<open>1 \<le> n \<le> maxGameNumber\<close>; otherwise, and for \<open>NaN\<close>, it fails with the range error.
\<close>

theorem validateGameNumber_parseInt_range:
  "validateGameNumber (OfString str) m = validateGameNumber (OfNumber (parseInt str)) m \<and>
   validateGameNumber (OfNumber (Num x)) m =
     (if 1 \<le> x \<and> x \<le> of_int m then Valid x else Invalid (GAME_NUMBER_RANGE m)) \<and>
   validateGameNumber (OfNumber NaN) m = Invalid (GAME_NUMBER_RANGE m) \<and>
   (list_all (\<lambda>c. \<not> isDigit c) str \<longrightarrow> parseInt str = NaN) \<and>
   (ip \<noteq> [] \<and> list_all isDigit ip \<longrightarrow>
      parseInt (ip @ CHR ''.'' # fr) = Num (of_int (digitsValue ip)))"
  using parseInt_no_digit [of str] parseInt_decimal [of ip fr]
  by (auto simp: validateGameNumber_def Let_def)

text \<open>Witness: \<open>abc\<close> is refused, \<open>12.75\<close> is accepted as 12, \<open>25\<close> is accepted and \<open>101\<close>
  is refused, all against a maximum of 100.\<close>

theorem validateGameNumber_parseInt_range_witness:
  "list_all (\<lambda>c. \<not> isDigit c) ''abc'' \<and> ''12'' \<noteq> [] \<and> list_all isDigit ''12'' \<and>
   validateGameNumber (OfString ''abc'') 100 = Invalid (GAME_NUMBER_RANGE 100) \<and>
   validateGameNumber (OfString ''12.75'') 100 = Valid 12 \<and>
   validateGameNumber (OfString ''25'') 100 = Valid 25 \<and>
   validateGameNumber (OfString ''101'') 100 = Invalid (GAME_NUMBER_RANGE 100)"
proof -
  have h1: "list_all (\<lambda>c. \<not> isDigit c) ''abc''"
    by (simp add: isDigit_def)
  have h2: "''12'' \<noteq> [] \<and> list_all isDigit ''12''"
    by (simp add: isDigit_def)
  have dv: "digitsValue ''12'' = 12"
    by (simp add: digitsValue_def digitValue_def)
  have p: "parseInt ''25'' = Num 25" "parseInt ''101'' = Num 101"
    by code_simp+
  from validateGameNumber_parseInt_range [of "''abc''" 100 12 "''12''" "''75''"] h1
  have "validateGameNumber (OfString ''abc'') 100 = Invalid (GAME_NUMBER_RANGE 100)"
    by simp
  moreover
  from validateGameNumber_parseInt_range [of "''12.75''" 100 12 "''12''" "''75''"] h2 dv
  have "validateGameNumber (OfString ''12.75'') 100 = Valid 12"
    by simp
  moreover
  from validateGameNumber_parseInt_range [of "''25''" 100 25 "''1''" "[]"] p
  have "validateGameNumber (OfString ''25'') 100 = Valid 25"
    by simp
  moreover
  from validateGameNumber_parseInt_range [of "''101''" 100 101 "''1''" "[]"] p
  have "validateGameNumber (OfString ''101'') 100 = Invalid (GAME_NUMBER_RANGE 100)"
    by simp
  ultimately show ?thesis using h1 h2 by simp
qed

text \<open>Counterexample to C9 as stated: the decimal string \<open>2.5\<close> does not fail; it is
  accepted with the value 2.\<close>

theorem validateGameNumber_decimal_string_counterexample:
  "validateGameNumber (OfString ''2.5'') 100 = Valid 2"
  by code_simp

subsection \<open>The computed properties\<close>

text \<open>
  C10. The computed properties \<open>canGuess\<close> and \<open>gameComplete\<close> are complements in every
  state: a guess can be made exactly when the game is not complete, that is, exactly
  when the game has not been won and fewer than six guesses have been made.
\<close>

theorem canGuess_complement_gameComplete:
  "(canGuess s \<longleftrightarrow> \<not> gameComplete s) \<and>
   (canGuess s \<longleftrightarrow> hasWon (gameState s) = False \<and> length (guesses (gameState s)) < 6)"
  by (auto simp: canGuess_def gameComplete_def MAX_GUESSES_def)

end
